theory Spec2Isabelle
  imports Main
begin

section \<open>Python values\<close>

text \<open>
  The scraping module \<^verbatim>\<open>05_scrape_demo.py\<close> handles untyped Python values: what
  \<^verbatim>\<open>json.loads\<close> and \<^verbatim>\<open>r.json()\<close> return, and what pyquery's \<^verbatim>\<open>.text()\<close> and
  \<^verbatim>\<open>.attr()\<close> return (\<^verbatim>\<open>str\<close> or \<^verbatim>\<open>None\<close>). A \<^verbatim>\<open>str\<close> is a \<open>string\<close>, one \<open>char\<close> per
  code point, which covers the code points below 256 (the ones \<^verbatim>\<open>_clean\<close> looks for are
  U+00A0 and U+00C2). A finite float is \<open>m * 2 ^ e\<close>. A \<^verbatim>\<open>dict\<close> is the list of its
  items, keys distinct.
\<close>

datatype pyfloat = Finite int int | NaN | Infinity bool

datatype pyval =
    PNone
  | PBool bool
  | PInt int
  | PFloat pyfloat
  | PStr string
  | PList "pyval list"
  | PDict "(string \<times> pyval) list"

text \<open>
  An exception object: the name of its class and its message. The classes that occur are
  subclasses of \<^verbatim>\<open>Exception\<close>, which is what the two \<^verbatim>\<open>except Exception\<close> clauses of the
  module catch.
\<close>

datatype exn = Exn (exn_class: string) (exn_msg: string)

text \<open>Truth value testing, as \<^verbatim>\<open>if x:\<close> and \<^verbatim>\<open>x or y\<close> do it.\<close>

fun truthy :: "pyval \<Rightarrow> bool" where
  "truthy PNone = False"
| "truthy (PBool b) = b"
| "truthy (PInt i) = (i \<noteq> 0)"
| "truthy (PFloat (Finite m e)) = (m \<noteq> 0)"
| "truthy (PFloat NaN) = True"
| "truthy (PFloat (Infinity s)) = True"
| "truthy (PStr s) = (s \<noteq> [])"
| "truthy (PList xs) = (xs \<noteq> [])"
| "truthy (PDict kvs) = (kvs \<noteq> [])"

text \<open>\<^verbatim>\<open>a or b or ... or z\<close>: the first truthy operand, else the last one.\<close>

fun py_or :: "pyval list \<Rightarrow> pyval" where
  "py_or [] = PNone"
| "py_or [x] = x"
| "py_or (x # y # ys) = (if truthy x then x else py_or (y # ys))"

text \<open>\<^verbatim>\<open>d.get(k)\<close> and \<^verbatim>\<open>d.get(k, default)\<close> on a dict.\<close>

definition dict_get_default :: "(string \<times> pyval) list \<Rightarrow> string \<Rightarrow> pyval \<Rightarrow> pyval" where
  "dict_get_default kvs k d = (case map_of kvs k of None \<Rightarrow> d | Some v \<Rightarrow> v)"

definition dict_get :: "(string \<times> pyval) list \<Rightarrow> string \<Rightarrow> pyval" where
  "dict_get kvs k = dict_get_default kvs k PNone"

text \<open>
  \<^verbatim>\<open>x.get(k)\<close> on any value: only a dict has the method, everything else raises
  \<^verbatim>\<open>AttributeError\<close>.
\<close>

definition attribute_error :: exn where
  "attribute_error = Exn ''AttributeError'' ''object has no attribute get''"

definition type_error :: "string \<Rightarrow> exn" where
  "type_error m = Exn ''TypeError'' m"

definition py_get :: "pyval \<Rightarrow> string \<Rightarrow> exn + pyval" where
  "py_get x k = (case x of PDict kvs \<Rightarrow> Inr (dict_get kvs k) | _ \<Rightarrow> Inl attribute_error)"

section \<open>String helpers\<close>

text \<open>\<^verbatim>\<open>str.isspace\<close> on one code point below 256.\<close>

definition py_isspace :: "char \<Rightarrow> bool" where
  "py_isspace c =
     (let n = (of_char c :: nat)
      in (9 \<le> n \<and> n \<le> 13) \<or> (28 \<le> n \<and> n \<le> 32) \<or> n = 133 \<or> n = 160)"

definition strip :: "string \<Rightarrow> string" where
  "strip s = rev (dropWhile py_isspace (rev (dropWhile py_isspace s)))"

definition rstrip_chars :: "char \<Rightarrow> string \<Rightarrow> string" where
  "rstrip_chars c s = rev (dropWhile (\<lambda>x. x = c) (rev s))"

text \<open>
  \<^verbatim>\<open>s.replace(old, new)\<close> for a non-empty \<open>old\<close> (the only use here): left to right,
  occurrences not overlapping.
\<close>

function replace :: "string \<Rightarrow> string \<Rightarrow> string \<Rightarrow> string" where
  "replace old new [] = []"
| "replace old new (c # cs) =
     (if old \<noteq> [] \<and> take (length old) (c # cs) = old
      then new @ replace old new (drop (length old) (c # cs))
      else c # replace old new cs)"
  by pat_completeness auto
termination
  by (relation "measure (\<lambda>(old, new, s). length s)") auto

text \<open>\<^verbatim>\<open>sub in s\<close> for strings, and \<^verbatim>\<open>s.split("?")[0]\<close>.\<close>

fun contains :: "string \<Rightarrow> string \<Rightarrow> bool" where
  "contains sub [] = (sub = [])"
| "contains sub (c # cs) = (take (length sub) (c # cs) = sub \<or> contains sub cs)"

definition before_first :: "char \<Rightarrow> string \<Rightarrow> string" where
  "before_first c s = takeWhile (\<lambda>x. x \<noteq> c) s"

text \<open>
  \<^verbatim>\<open>_clean\<close>: a value that is not a \<^verbatim>\<open>str\<close> is returned as it is; in a \<^verbatim>\<open>str\<close> the four
  characters backslash, x, a, 0 and the no-break space U+00A0 become a space, U+00C2 is
  deleted, and the result is stripped.
\<close>

definition clean_str :: "string \<Rightarrow> string" where
  "clean_str s =
     strip (replace [CHR 0xC2] []
       (replace [CHR 0xA0] '' ''
         (replace [CHR 0x5C, CHR ''x'', CHR ''a'', CHR ''0''] '' '' s)))"

fun clean :: "pyval \<Rightarrow> pyval" where
  "clean (PStr s) = PStr (clean_str s)"
| "clean v = v"

section \<open>The libraries, the configuration and the network\<close>

text \<open>
  A pyquery document answers a CSS selector with a sequence of elements
  (\<^verbatim>\<open>doc(sel).items()\<close>); an element has its text (\<^verbatim>\<open>script.text()\<close>) and answers a selector
  with a selection (\<^verbatim>\<open>card(sel)\<close>), of which the code reads \<^verbatim>\<open>.text()\<close> (a \<^verbatim>\<open>str\<close>) and
  \<^verbatim>\<open>.attr(name)\<close> (a \<^verbatim>\<open>str\<close> or \<^verbatim>\<open>None\<close>).
\<close>

record selection =
  sel_text :: string
  sel_attr :: "string \<Rightarrow> string option"

record element =
  el_text :: string
  el_find :: "string \<Rightarrow> selection"

type_synonym doc = "string \<Rightarrow> element list"

definition text_of :: "element \<Rightarrow> string \<Rightarrow> pyval" where
  "text_of crd sel = PStr (sel_text (el_find crd sel))"

definition attr_of :: "element \<Rightarrow> string \<Rightarrow> string \<Rightarrow> pyval" where
  "attr_of crd sel name =
     (case sel_attr (el_find crd sel) name of None \<Rightarrow> PNone | Some v \<Rightarrow> PStr v)"

text \<open>An HTTP response as \<^verbatim>\<open>requests\<close> gives it: \<^verbatim>\<open>r.json()\<close> raises or returns a value.\<close>

record response =
  status_code :: nat
  resp_text :: string
  resp_json :: "exn + pyval"

text \<open>
  What the module imports and does not define: the reference resolution of
  \<^verbatim>\<open>urllib.parse.urljoin\<close> (which raises \<^verbatim>\<open>ValueError\<close> on a malformed reference),
  \<^verbatim>\<open>str()\<close> of a value that is not a \<^verbatim>\<open>str\<close>, \<^verbatim>\<open>quote_plus\<close>, the pyquery parser
  (which raises on a text it cannot parse), \<^verbatim>\<open>json.loads\<close> and the message of
  \<^verbatim>\<open>raise_for_status\<close>.
\<close>

record pylib =
  resolve :: "string \<Rightarrow> string \<Rightarrow> exn + string"
  repr_of :: "pyval \<Rightarrow> string"
  quote_plus :: "string \<Rightarrow> string"
  pq :: "string \<Rightarrow> exn + doc"
  json_loads :: "string \<Rightarrow> exn + pyval"
  http_error_msg :: "response \<Rightarrow> string"

text \<open>The four module constants read from the environment (\<^verbatim>\<open>os.getenv\<close>).\<close>

record config =
  TIME_URL :: string
  CITY_URL :: string
  READERS_URL :: string
  READERS_QUERY :: string

definition default_config :: config where
  "default_config =
     \<lparr>TIME_URL = ''https://shop.timecenter.jo/collections/men-watches'',
      CITY_URL = ''https://citycenter.jo/pc-and-laptops/pc-and-laptops-laptops'',
      READERS_URL = ''https://www.readers.jo/'',
      READERS_QUERY = ''book''\<rparr>"

text \<open>
  A request is the URL and the query parameters. The network answers a request with an
  exception or a response, and the answer may depend on the requests made before it. The
  state a run threads through \<^verbatim>\<open>fetch\<close> is the list of the requests made so far.
\<close>

type_synonym request = "string \<times> (string \<times> int) list"

type_synonym network = "request list \<Rightarrow> request \<Rightarrow> exn + response"

definition py_str :: "pylib \<Rightarrow> pyval \<Rightarrow> string" where
  "py_str lib v = (case v of PStr s \<Rightarrow> s | _ \<Rightarrow> repr_of lib v)"

text \<open>
  \<^verbatim>\<open>urljoin(base, url)\<close> with a \<^verbatim>\<open>str\<close> base: an empty base returns \<open>url\<close>, a falsy
  \<open>url\<close> returns the base, a \<open>url\<close> that is not a \<^verbatim>\<open>str\<close> raises \<^verbatim>\<open>TypeError\<close>, and
  otherwise the reference is resolved.
\<close>

definition urljoin :: "pylib \<Rightarrow> string \<Rightarrow> pyval \<Rightarrow> exn + pyval" where
  "urljoin lib base url =
     (if base = [] then Inr url
      else if \<not> truthy url then Inr (PStr base)
      else case url of
             PStr u \<Rightarrow> (case resolve lib base u of Inl e \<Rightarrow> Inl e | Inr r \<Rightarrow> Inr (PStr r))
           | _ \<Rightarrow> Inl (type_error ''Cannot mix str and non-str arguments''))"

text \<open>
  \<^verbatim>\<open>fetch\<close>: one GET; \<^verbatim>\<open>raise_for_status\<close> raises \<^verbatim>\<open>HTTPError\<close> for a status from 400 to
  599.
\<close>

definition fetch ::
  "pylib \<Rightarrow> network \<Rightarrow> string \<Rightarrow> (string \<times> int) list \<Rightarrow> request list
     \<Rightarrow> (exn + response) \<times> request list" where
  "fetch lib net url params reqs =
     (case net reqs (url, params) of
        Inl e \<Rightarrow> (Inl e, reqs @ [(url, params)])
      | Inr r \<Rightarrow>
          if 400 \<le> status_code r \<and> status_code r < 600
          then (Inl (Exn ''HTTPError'' (http_error_msg lib r)), reqs @ [(url, params)])
          else (Inr r, reqs @ [(url, params)]))"

text \<open>\<^verbatim>\<open>r = fetch(url); doc = pq(r.text)\<close>\<close>

definition fetch_doc ::
  "pylib \<Rightarrow> network \<Rightarrow> string \<Rightarrow> request list \<Rightarrow> (exn + doc) \<times> request list" where
  "fetch_doc lib net url reqs =
     (case fetch lib net url [] reqs of
        (Inl e, reqs') \<Rightarrow> (Inl e, reqs')
      | (Inr r, reqs') \<Rightarrow> (pq lib (resp_text r), reqs'))"

section \<open>Items and site results\<close>

record item =
  title :: pyval
  price :: pyval
  href :: pyval

record site_result =
  source :: string
  items_count :: nat
  items_preview :: "item list"
  note_field :: "string option"

section \<open>City Center\<close>

definition city_cards_selector :: string where
  "city_cards_selector =
     ''div.product, div.product-item, div.product-thumb, li.product, div.card, div.product-layout''"

definition city_title :: "element \<Rightarrow> pyval" where
  "city_title crd =
     py_or [text_of crd ''h4 a'', text_of crd ''h3 a'', text_of crd ''.product-title a'',
            text_of crd ''.title a'', attr_of crd ''a'' ''title'']"

definition city_price :: "element \<Rightarrow> pyval" where
  "city_price crd =
     py_or [text_of crd ''.price .price-new'', text_of crd ''.price'',
            text_of crd ''.product-price'', text_of crd ''.new-price'',
            text_of crd ''.amount'']"

definition city_href :: "element \<Rightarrow> pyval" where
  "city_href crd =
     py_or [attr_of crd ''h4 a'' ''href'', attr_of crd ''h3 a'' ''href'',
            attr_of crd ''a'' ''href'', PStr []]"

text \<open>
  The loop over the cards, \<open>items\<close> being the list built so far: it stops at 8 items, and
  an exception of \<^verbatim>\<open>urljoin\<close> leaves it.
\<close>

fun city_loop ::
  "pylib \<Rightarrow> config \<Rightarrow> element list \<Rightarrow> item list \<Rightarrow> exn + item list" where
  "city_loop lib cfg [] items = Inr items"
| "city_loop lib cfg (crd # cards) items =
     (if length items \<ge> 8 then Inr items
      else if truthy (city_title crd)
      then (case urljoin lib (CITY_URL cfg) (city_href crd) of
              Inl e \<Rightarrow> Inl e
            | Inr h \<Rightarrow>
                city_loop lib cfg cards
                  (items @ [\<lparr>title = clean (city_title crd),
                             price = clean (city_price crd), href = h\<rparr>]))
      else city_loop lib cfg cards items)"

definition city_error :: exn where
  "city_error = Exn ''ValueError'' ''No product cards parsed on City Center page.''"

definition parse_citycenter_laptops ::
  "pylib \<Rightarrow> config \<Rightarrow> network \<Rightarrow> request list
     \<Rightarrow> (exn + site_result) \<times> request list" where
  "parse_citycenter_laptops lib cfg net reqs =
     (case fetch_doc lib net (CITY_URL cfg) reqs of
        (Inl e, reqs') \<Rightarrow> (Inl e, reqs')
      | (Inr doc, reqs') \<Rightarrow>
          (case city_loop lib cfg (doc city_cards_selector) [] of
             Inl e \<Rightarrow> (Inl e, reqs')
           | Inr items \<Rightarrow>
               if items = [] then (Inl city_error, reqs')
               else (Inr \<lparr>source = CITY_URL cfg, items_count = length items,
                          items_preview = take 8 items, note_field = None\<rparr>, reqs')))"

section \<open>Time Center\<close>

text \<open>Sequencing of two computations that may raise.\<close>

definition bind_exn :: "exn + 'a \<Rightarrow> ('a \<Rightarrow> exn + 'b) \<Rightarrow> exn + 'b" where
  "bind_exn m f = (case m of Inl e \<Rightarrow> Inl e | Inr x \<Rightarrow> f x)"

text \<open>
  \<^verbatim>\<open>x[:8]\<close> and \<^verbatim>\<open>x[0]\<close> on any value: a list and a \<^verbatim>\<open>str\<close> can be sliced and indexed
  (the elements of a \<^verbatim>\<open>str\<close> are its one-character strings), a dict has no such key, and
  the other values raise \<^verbatim>\<open>TypeError\<close>.
\<close>

definition slice8 :: "pyval \<Rightarrow> exn + pyval list" where
  "slice8 v =
     (case v of
        PList xs \<Rightarrow> Inr (take 8 xs)
      | PStr s \<Rightarrow> Inr (map (\<lambda>c. PStr [c]) (take 8 s))
      | PDict kvs \<Rightarrow> Inl (type_error ''unhashable type: slice'')
      | _ \<Rightarrow> Inl (type_error ''object is not subscriptable''))"

definition first_of :: "pyval \<Rightarrow> exn + pyval" where
  "first_of v =
     (case v of
        PList xs \<Rightarrow>
          (case xs of [] \<Rightarrow> Inl (Exn ''IndexError'' ''list index out of range'')
           | x # rest \<Rightarrow> Inr x)
      | PStr s \<Rightarrow>
          (case s of [] \<Rightarrow> Inl (Exn ''IndexError'' ''string index out of range'')
           | c # rest \<Rightarrow> Inr (PStr [c]))
      | PDict kvs \<Rightarrow> Inl (Exn ''KeyError'' ''0'')
      | _ \<Rightarrow> Inl (type_error ''object is not subscriptable''))"

definition time_base :: "config \<Rightarrow> string" where
  "time_base cfg = rstrip_chars CHR ''/'' (before_first CHR ''?'' (TIME_URL cfg))"

definition prod_json_url :: "config \<Rightarrow> string" where
  "prod_json_url cfg =
     (if contains ''/collections/'' (time_base cfg) then time_base cfg @ ''/products.json''
      else ''https://shop.timecenter.jo/products.json'')"

text \<open>The body of the loop over \<^verbatim>\<open>products[:8]\<close>, for one product \<open>p\<close>.\<close>

definition time_json_product ::
  "pylib \<Rightarrow> config \<Rightarrow> pyval \<Rightarrow> item list \<Rightarrow> exn + item list" where
  "time_json_product lib cfg p items =
     bind_exn (py_get p ''title'') (\<lambda>title.
     bind_exn (py_get p ''handle'') (\<lambda>handle.
     bind_exn (py_get p ''variants'') (\<lambda>v.
     bind_exn (if truthy (py_or [v, PList []])
               then bind_exn (first_of (py_or [v, PList []])) (\<lambda>v0. py_get v0 ''price'')
               else Inr PNone) (\<lambda>price.
       if truthy title
       then Inr (items @
              [\<lparr>title = clean title,
                price = clean (PStr (if price \<noteq> PNone then py_str lib price else [])),
                href = (if truthy handle
                        then PStr (''https://shop.timecenter.jo/products/'' @ py_str lib handle)
                        else PStr (TIME_URL cfg))\<rparr>])
       else Inr items))))"

fun time_json_loop ::
  "pylib \<Rightarrow> config \<Rightarrow> pyval list \<Rightarrow> item list \<Rightarrow> exn + item list" where
  "time_json_loop lib cfg [] items = Inr items"
| "time_json_loop lib cfg (p # ps) items =
     bind_exn (time_json_product lib cfg p items) (\<lambda>items'. time_json_loop lib cfg ps items')"

text \<open>
  The lines of the \<^verbatim>\<open>try\<close> block between the fetch and \<^verbatim>\<open>if items:\<close>
  (\<^verbatim>\<open>data.get\<close> is reached only on a dict, whose default for a missing key is the empty
  list).
\<close>

definition time_json_items :: "pylib \<Rightarrow> config \<Rightarrow> response \<Rightarrow> exn + item list" where
  "time_json_items lib cfg r =
     bind_exn (resp_json r) (\<lambda>data.
     bind_exn (case data of
                 PDict kvs \<Rightarrow> Inr (dict_get_default kvs ''products'' (PList []))
               | _ \<Rightarrow> Inl attribute_error) (\<lambda>products.
     bind_exn (slice8 products) (\<lambda>ps. time_json_loop lib cfg ps [])))"

text \<open>
  The \<^verbatim>\<open>try\<close> block: \<open>Inr (Some res)\<close> when it returns \<open>res\<close>, \<open>Inr None\<close> when it ends
  with no item, \<open>Inl e\<close> when an exception leaves it.
\<close>

definition time_json_tier ::
  "pylib \<Rightarrow> config \<Rightarrow> network \<Rightarrow> request list
     \<Rightarrow> (exn + site_result option) \<times> request list" where
  "time_json_tier lib cfg net reqs =
     (case fetch lib net (prod_json_url cfg) [(''limit'', 12)] reqs of
        (Inl e, reqs') \<Rightarrow> (Inl e, reqs')
      | (Inr r, reqs') \<Rightarrow>
          (bind_exn (time_json_items lib cfg r) (\<lambda>items.
             Inr (if items \<noteq> []
                  then Some \<lparr>source = prod_json_url cfg, items_count = length items,
                             items_preview = items, note_field = None\<rparr>
                  else None)), reqs'))"

definition time_cards_selector :: string where
  "time_cards_selector =
     ''article.product, article.product-card, div.product-item, div.grid__item, div.card''"

definition time_title :: "element \<Rightarrow> pyval" where
  "time_title crd =
     py_or [attr_of crd ''h3 a'' ''title'', text_of crd ''h3 a'',
            text_of crd ''.card__heading a'', text_of crd ''.product-item__title a'',
            text_of crd ''.product-title a'']"

definition time_price :: "element \<Rightarrow> pyval" where
  "time_price crd =
     py_or [text_of crd ''.price-item--regular'', text_of crd ''.price__current'',
            text_of crd ''.price .price-item'', text_of crd ''.money'', text_of crd ''.price'']"

definition time_href :: "element \<Rightarrow> pyval" where
  "time_href crd = py_or [attr_of crd ''a'' ''href'', PStr []]"

fun time_html_loop ::
  "pylib \<Rightarrow> config \<Rightarrow> element list \<Rightarrow> item list \<Rightarrow> exn + item list" where
  "time_html_loop lib cfg [] items = Inr items"
| "time_html_loop lib cfg (crd # cards) items =
     (if length items \<ge> 8 then Inr items
      else if truthy (time_title crd)
      then (case urljoin lib (TIME_URL cfg) (time_href crd) of
              Inl e \<Rightarrow> Inl e
            | Inr h \<Rightarrow>
                time_html_loop lib cfg cards
                  (items @ [\<lparr>title = clean (time_title crd),
                             price = clean (time_price crd), href = h\<rparr>]))
      else time_html_loop lib cfg cards items)"

definition time_error :: exn where
  "time_error = Exn ''ValueError'' ''No product items from Shopify JSON nor HTML on Time Center.''"

text \<open>The part of \<^verbatim>\<open>parse_timecenter_shopify\<close> after the \<^verbatim>\<open>try\<close> statement.\<close>

definition time_html_tier ::
  "pylib \<Rightarrow> config \<Rightarrow> network \<Rightarrow> request list
     \<Rightarrow> (exn + site_result) \<times> request list" where
  "time_html_tier lib cfg net reqs =
     (case fetch_doc lib net (TIME_URL cfg) reqs of
        (Inl e, reqs') \<Rightarrow> (Inl e, reqs')
      | (Inr doc, reqs') \<Rightarrow>
          (case time_html_loop lib cfg (doc time_cards_selector) [] of
             Inl e \<Rightarrow> (Inl e, reqs')
           | Inr items \<Rightarrow>
               if items = [] then (Inl time_error, reqs')
               else (Inr \<lparr>source = TIME_URL cfg, items_count = length items,
                          items_preview = take 8 items, note_field = None\<rparr>, reqs')))"

text \<open>
  \<^verbatim>\<open>except Exception: pass\<close>: whatever the \<^verbatim>\<open>try\<close> block raised is dropped, and the HTML
  tier runs unless the block returned.
\<close>

definition parse_timecenter_shopify ::
  "pylib \<Rightarrow> config \<Rightarrow> network \<Rightarrow> request list
     \<Rightarrow> (exn + site_result) \<times> request list" where
  "parse_timecenter_shopify lib cfg net reqs =
     (case time_json_tier lib cfg net reqs of
        (tier, reqs') \<Rightarrow>
          (case tier of
             Inl e \<Rightarrow> time_html_tier lib cfg net reqs'
           | Inr None \<Rightarrow> time_html_tier lib cfg net reqs'
           | Inr (Some res) \<Rightarrow> (Inr res, reqs')))"

section \<open>Readers\<close>

text \<open>
  \<^verbatim>\<open>push_product\<close>, the closure of \<^verbatim>\<open>_readers_extract_from_doc\<close> that appends to
  \<open>items\<close>: the list is passed in and returned. \<^verbatim>\<open>(x or {}).get("price")\<close> raises when
  \<open>x\<close> is truthy and not a dict.
\<close>

definition offers_price :: "pyval \<Rightarrow> exn + pyval" where
  "offers_price offers =
     (case offers of
        PDict okvs \<Rightarrow>
          if truthy (dict_get okvs ''price'') then Inr (dict_get okvs ''price'')
          else py_get (py_or [dict_get okvs ''priceSpecification'', PDict []]) ''price''
      | _ \<Rightarrow> Inr PNone)"

definition push_product :: "pylib \<Rightarrow> string \<Rightarrow> pyval \<Rightarrow> item list \<Rightarrow> exn + item list" where
  "push_product lib base obj items =
     (case obj of
        PDict kvs \<Rightarrow>
          bind_exn (offers_price (py_or [dict_get kvs ''offers'', PDict []])) (\<lambda>price.
            if truthy (dict_get kvs ''name'')
            then bind_exn (urljoin lib base (py_or [dict_get kvs ''url'', PStr []])) (\<lambda>h.
                   Inr (items @
                     [\<lparr>title = clean (dict_get kvs ''name''),
                       price = clean (PStr (if price \<noteq> PNone then py_str lib price else [])),
                       href = h\<rparr>]))
            else Inr items)
      | _ \<Rightarrow> Inr items)"

text \<open>
  \<^verbatim>\<open>for li in x\<close> on any value: a list gives its elements, a \<^verbatim>\<open>str\<close> its characters, a
  dict its keys, and the other values raise \<^verbatim>\<open>TypeError\<close>.
\<close>

definition iterate :: "pyval \<Rightarrow> exn + pyval list" where
  "iterate v =
     (case v of
        PList xs \<Rightarrow> Inr xs
      | PStr s \<Rightarrow> Inr (map (\<lambda>c. PStr [c]) s)
      | PDict kvs \<Rightarrow> Inr (map (\<lambda>kv. PStr (fst kv)) kvs)
      | _ \<Rightarrow> Inl (type_error ''object is not iterable''))"

text \<open>The loop over \<^verbatim>\<open>itemListElement\<close>.\<close>

fun push_list_items ::
  "pylib \<Rightarrow> string \<Rightarrow> pyval list \<Rightarrow> item list \<Rightarrow> exn + item list" where
  "push_list_items lib base [] items = Inr items"
| "push_list_items lib base (li # lis) items =
     (case li of
        PDict kvs \<Rightarrow>
          bind_exn (push_product lib base (py_or [dict_get kvs ''item'', li]) items)
            (\<lambda>items'. push_list_items lib base lis items')
      | _ \<Rightarrow> push_list_items lib base lis items)"

text \<open>
  What the code does with one dict of the structured data (the same lines stand in the
  loop over a list and in the branch for a single dict).
\<close>

definition jsonld_node ::
  "pylib \<Rightarrow> string \<Rightarrow> (string \<times> pyval) list \<Rightarrow> item list \<Rightarrow> exn + item list" where
  "jsonld_node lib base kvs items =
     (if dict_get kvs ''@type'' = PStr ''Product'' then push_product lib base (PDict kvs) items
      else if dict_get kvs ''@type'' = PStr ''ItemList''
      then bind_exn (iterate (dict_get_default kvs ''itemListElement'' (PList [])))
             (\<lambda>lis. push_list_items lib base lis items)
      else Inr items)"

fun jsonld_entries ::
  "pylib \<Rightarrow> string \<Rightarrow> pyval list \<Rightarrow> item list \<Rightarrow> exn + item list" where
  "jsonld_entries lib base [] items = Inr items"
| "jsonld_entries lib base (entry # entries) items =
     (case entry of
        PDict kvs \<Rightarrow>
          bind_exn (jsonld_node lib base kvs items)
            (\<lambda>items'. jsonld_entries lib base entries items')
      | _ \<Rightarrow> jsonld_entries lib base entries items)"

definition jsonld_data :: "pylib \<Rightarrow> string \<Rightarrow> pyval \<Rightarrow> item list \<Rightarrow> exn + item list" where
  "jsonld_data lib base data items =
     (case data of
        PList entries \<Rightarrow> jsonld_entries lib base entries items
      | PDict kvs \<Rightarrow> jsonld_node lib base kvs items
      | _ \<Rightarrow> Inr items)"

text \<open>The loop over the script blocks: a block that does not parse is skipped.\<close>

fun jsonld_scripts ::
  "pylib \<Rightarrow> string \<Rightarrow> element list \<Rightarrow> item list \<Rightarrow> exn + item list" where
  "jsonld_scripts lib base [] items = Inr items"
| "jsonld_scripts lib base (script # scripts) items =
     (case json_loads lib (el_text script) of
        Inl e \<Rightarrow> jsonld_scripts lib base scripts items
      | Inr data \<Rightarrow>
          bind_exn (jsonld_data lib base data items)
            (\<lambda>items'. jsonld_scripts lib base scripts items'))"

definition jsonld_selector :: string where
  "jsonld_selector =
     ''script[type='' @ [CHR 0x22] @ ''application/ld+json'' @ [CHR 0x22] @ '']''"

definition readers_cards_selector :: string where
  "readers_cards_selector =
     ''div.product-thumb, div.product-layout, li.product, div.product-grid-item, div.product''"

definition readers_title :: "element \<Rightarrow> pyval" where
  "readers_title crd =
     py_or [text_of crd ''.caption h4 a'', text_of crd ''h4 a'', text_of crd ''.name a'',
            text_of crd ''h3 a'', attr_of crd ''a'' ''title'']"

definition readers_price :: "element \<Rightarrow> pyval" where
  "readers_price crd =
     py_or [text_of crd ''.price .price-new'', text_of crd ''.price .price-old'',
            text_of crd ''.price'', text_of crd ''.product-price'']"

definition readers_href :: "element \<Rightarrow> pyval" where
  "readers_href crd =
     py_or [attr_of crd ''.caption h4 a'' ''href'', attr_of crd ''h4 a'' ''href'',
            attr_of crd ''a'' ''href'', PStr []]"

fun readers_html_loop ::
  "pylib \<Rightarrow> string \<Rightarrow> element list \<Rightarrow> item list \<Rightarrow> exn + item list" where
  "readers_html_loop lib base [] items = Inr items"
| "readers_html_loop lib base (crd # cards) items =
     (if length items \<ge> 8 then Inr items
      else if truthy (readers_title crd)
      then (case urljoin lib base (readers_href crd) of
              Inl e \<Rightarrow> Inl e
            | Inr h \<Rightarrow>
                readers_html_loop lib base cards
                  (items @ [\<lparr>title = clean (readers_title crd),
                             price = clean (readers_price crd), href = h\<rparr>]))
      else readers_html_loop lib base cards items)"

definition readers_extract_from_doc :: "pylib \<Rightarrow> doc \<Rightarrow> string \<Rightarrow> exn + item list" where
  "readers_extract_from_doc lib doc base =
     bind_exn (jsonld_scripts lib base (doc jsonld_selector) []) (\<lambda>items.
       if length items < 8 then readers_html_loop lib base (doc readers_cards_selector) items
       else Inr items)"

definition search_url :: "pylib \<Rightarrow> config \<Rightarrow> string" where
  "search_url lib cfg =
     ''https://www.readers.jo/index.php?route=product/search&search=''
       @ quote_plus lib (READERS_QUERY cfg)"

definition readers_error :: exn where
  "readers_error =
     Exn ''ValueError''
       ''No product cards or JSON-LD products found on Readers (homepage and search).''"

definition readers_note :: "config \<Rightarrow> string" where
  "readers_note cfg = ''Search fallback for '' @ [CHR 0x27] @ READERS_QUERY cfg @ [CHR 0x27]"

text \<open>
  The branch of \<^verbatim>\<open>parse_readers\<close> taken when the first page gave no item: the search
  page is fetched and read the same way.
\<close>

definition readers_search ::
  "pylib \<Rightarrow> config \<Rightarrow> network \<Rightarrow> request list
     \<Rightarrow> (exn + site_result) \<times> request list" where
  "readers_search lib cfg net reqs =
     (case fetch_doc lib net (search_url lib cfg) reqs of
        (Inl e, reqs') \<Rightarrow> (Inl e, reqs')
      | (Inr doc, reqs') \<Rightarrow>
          (case readers_extract_from_doc lib doc (search_url lib cfg) of
             Inl e \<Rightarrow> (Inl e, reqs')
           | Inr items \<Rightarrow>
               if items \<noteq> []
               then (Inr \<lparr>source = search_url lib cfg, items_count = length items,
                          items_preview = take 8 items,
                          note_field = Some (readers_note cfg)\<rparr>, reqs')
               else (Inl readers_error, reqs')))"

definition parse_readers ::
  "pylib \<Rightarrow> config \<Rightarrow> network \<Rightarrow> request list
     \<Rightarrow> (exn + site_result) \<times> request list" where
  "parse_readers lib cfg net reqs =
     (case fetch_doc lib net (READERS_URL cfg) reqs of
        (Inl e, reqs') \<Rightarrow> (Inl e, reqs')
      | (Inr doc, reqs') \<Rightarrow>
          (case readers_extract_from_doc lib doc (READERS_URL cfg) of
             Inl e \<Rightarrow> (Inl e, reqs')
           | Inr items \<Rightarrow>
               if items = [] then readers_search lib cfg net reqs'
               else (Inr \<lparr>source = READERS_URL cfg, items_count = length items,
                          items_preview = take 8 items, note_field = None\<rparr>, reqs')))"

section \<open>The orchestrator\<close>




text \<open>
  What the two \<^verbatim>\<open>main\<close> functions take from the system:
  \<^item> \<^verbatim>\<open>traceback.format_exc\<close>;
  \<^item> \<^verbatim>\<open>json.dump\<close> of a dict of type \<open>'o\<close> into the opened file: the text that reached
    the file and, when the dump raised on the way, the exception (a string that holds a
    lone surrogate cannot be written to the utf-8 file; the strings here do not reach
    such code points, so whether the dump raises is part of the system);
  \<^item> \<^verbatim>\<open>os.makedirs\<close> and \<^verbatim>\<open>open(path, "w")\<close>, which may raise (\<open>None\<close> when they succeed);
  \<^item> the characters beyond ASCII that the console can encode: \<^verbatim>\<open>print\<close> raises
    \<^verbatim>\<open>UnicodeEncodeError\<close> on a line that holds any other character;
  \<^item> \<^verbatim>\<open>os.path.abspath\<close> (the working directory exists: files are opened in it) and
    \<^verbatim>\<open>sys.executable\<close>.
\<close>

record 'o oslib =
  format_exc :: "exn \<Rightarrow> string"
  json_dump :: "'o \<Rightarrow> string \<times> exn option"
  os_makedirs :: "string \<Rightarrow> exn option"
  os_open_w :: "string \<Rightarrow> exn option"
  console :: "char \<Rightarrow> bool"
  os_abspath :: "string \<Rightarrow> string"
  sys_executable :: string


definition encode_error :: exn where
  "encode_error = Exn ''UnicodeEncodeError'' ''codec cannot encode character''"















section \<open>The parallel reports\<close>






















section \<open>A property of items\<close>

text \<open>The \<^verbatim>\<open>href\<close> of an item is a \<^verbatim>\<open>str\<close> and is not empty.\<close>

definition href_nonempty :: "item \<Rightarrow> bool" where
  "href_nonempty it = (case href it of PStr s \<Rightarrow> s \<noteq> [] | _ \<Rightarrow> False)"


section \<open>Sample pages, libraries and networks\<close>

text \<open>
  Concrete inputs on which the theorems below are run. A page is named by its text: the
  page \<open>''cards''\<close> has one product card under every card selector and no structured
  data, the page \<open>''ld9''\<close> has one structured-data block and no card, and any other page
  has neither. A sample card has its title and its address in its links
  (\<^verbatim>\<open>h4 a\<close>, \<^verbatim>\<open>h3 a\<close>, \<^verbatim>\<open>a\<close>) and no price. The sample resolver appends the reference
  to the base.
\<close>

definition sample_card :: "string \<Rightarrow> string \<Rightarrow> element" where
  "sample_card t h =
     \<lparr>el_text = t,
      el_find = (\<lambda>sel. if sel \<in> {''h4 a'', ''h3 a'', ''a''}
                       then \<lparr>sel_text = t, sel_attr = [''href'' \<mapsto> h]\<rparr>
                       else \<lparr>sel_text = [], sel_attr = Map.empty\<rparr>)\<rparr>"

definition sample_doc :: "string \<Rightarrow> doc" where
  "sample_doc page sel =
     (if page = ''cards'' \<and> sel \<noteq> jsonld_selector then [sample_card ''Laptop'' ''/p/1'']
      else if page = ''ld9'' \<and> sel = jsonld_selector then [sample_card ''nine'' []]
      else [])"

definition sample_product :: "string \<Rightarrow> pyval" where
  "sample_product name =
     PDict [(''@type'', PStr ''Product''), (''name'', PStr name), (''url'', PStr ''/b'')]"

definition nine_products :: pyval where
  "nine_products =
     PList [sample_product ''b1'', sample_product ''b2'', sample_product ''b3'',
            sample_product ''b4'', sample_product ''b5'', sample_product ''b6'',
            sample_product ''b7'', sample_product ''b8'', sample_product ''b9'']"

definition sample_lib :: pylib where
  "sample_lib =
     \<lparr>resolve = (\<lambda>base u. Inr (base @ u)),
      repr_of = (\<lambda>v. ''?''),
      quote_plus = (\<lambda>q. q),
      pq = (\<lambda>t. if t = [] then Inl (Exn ''ParserError'' ''Document is empty'')
                 else Inr (sample_doc t)),
      json_loads = (\<lambda>t. if t = ''nine'' then Inr nine_products
                         else Inl (Exn ''JSONDecodeError'' ''Expecting value'')),
      http_error_msg = (\<lambda>r. ''Client Error'')\<rparr>"

definition no_json :: "exn + pyval" where
  "no_json = Inl (Exn ''JSONDecodeError'' ''Expecting value'')"

text \<open>A network that answers every request with the same page and the same JSON body.\<close>

definition sample_net :: "string \<Rightarrow> exn + pyval \<Rightarrow> network" where
  "sample_net page js reqs req = Inr \<lparr>status_code = 200, resp_text = page, resp_json = js\<rparr>"


definition net_404 :: network where
  "net_404 reqs req = Inr \<lparr>status_code = 404, resp_text = ''Not Found'', resp_json = no_json\<rparr>"

text \<open>A network whose Readers home page is empty and whose other pages are \<open>''cards''\<close>.\<close>

definition net_search :: network where
  "net_search reqs req =
     Inr \<lparr>status_code = 200,
          resp_text = (if fst req = ''https://www.readers.jo/'' then ''empty'' else ''cards''),
          resp_json = no_json\<rparr>"

definition one_watch :: "string \<Rightarrow> pyval" where
  "one_watch t =
     PDict [(''products'',
       PList [PDict [(''title'', PStr t), (''handle'', PStr ''w1''),
                     (''variants'', PList [PDict [(''price'', PStr ''10.00'')]])]])]"

text \<open>
  A sample system: the serialisation of a dict lists its keys, the console encodes every
  character. \<open>ascii_os\<close> is the same system with a console that encodes ASCII only, and
  \<open>failing_dump_os\<close> the same system where the dump raises after the first character.
\<close>

definition sample_os :: "(string \<times> 'v) list oslib" where
  "sample_os =
     \<lparr>format_exc = (\<lambda>e. ''Traceback: '' @ exn_class e),
      json_dump = (\<lambda>out. (concat (map (\<lambda>kv. fst kv @ '';'') out), None)),
      os_makedirs = (\<lambda>path. None),
      os_open_w = (\<lambda>path. None),
      console = (\<lambda>c. True),
      os_abspath = (\<lambda>path. ''/srv/app/'' @ path),
      sys_executable = ''/usr/bin/python3''\<rparr>"


definition failing_dump_os :: "(string \<times> 'v) list oslib" where
  "failing_dump_os = sample_os\<lparr>json_dump := (\<lambda>out. (''{'', Some encode_error))\<rparr>"



text \<open>
  A page with two cards, the second with the address \<^verbatim>\<open>http://[\<close>, and a library whose
  parser gives that page for the text \<open>''two''\<close> and whose resolver raises on that
  address, as \<^verbatim>\<open>urljoin\<close> does (\<^verbatim>\<open>ValueError: Invalid IPv6 URL\<close>).
\<close>

definition two_cards_doc :: doc where
  "two_cards_doc sel =
     (if sel = jsonld_selector then []
      else [sample_card ''Laptop'' ''/p/1'', sample_card ''Tablet'' ''http://[''])"

definition ipv6_lib :: pylib where
  "ipv6_lib =
     sample_lib
       \<lparr>resolve := (\<lambda>base u. if u = ''http://['' then Inl (Exn ''ValueError'' ''Invalid IPv6 URL'')
                              else Inr (base @ u)),
        pq := (\<lambda>t. if t = ''two'' then Inr two_cards_doc else pq sample_lib t)\<rparr>"

text \<open>
  A page with one structured-data block that lists two products and with one card, and a
  library that reads that block.
\<close>

definition mixed_doc :: doc where
  "mixed_doc sel =
     (if sel = jsonld_selector then [sample_card ''pair'' []]
      else [sample_card ''Laptop'' ''/p/1''])"

definition mixed_lib :: pylib where
  "mixed_lib =
     sample_lib
       \<lparr>json_loads := (\<lambda>t. if t = ''pair''
                             then Inr (PList [sample_product ''b1'', sample_product ''b2''])
                             else json_loads sample_lib t)\<rparr>"







section \<open>Basic facts\<close>

lemma bind_exn_simps [simp]: "bind_exn (Inl e) f = Inl e" "bind_exn (Inr x) f = f x"
  by (simp_all add: bind_exn_def)

lemma bind_exn_Inr: "bind_exn m f = Inr y \<longleftrightarrow> (\<exists>x. m = Inr x \<and> f x = Inr y)"
  by (cases m) simp_all

lemma fetch_log:
  "fetch lib net url params reqs = (res, reqs') \<Longrightarrow> reqs' = reqs @ [(url, params)]"
  by (auto simp: fetch_def split: sum.splits if_splits)

lemma fetch_doc_log:
  "fetch_doc lib net url reqs = (res, reqs') \<Longrightarrow> reqs' = reqs @ [(url, [])]"
  by (auto simp: fetch_doc_def split: sum.splits prod.splits dest: fetch_log)

lemma default_config_simps:
  "TIME_URL default_config = ''https://shop.timecenter.jo/collections/men-watches''"
  "CITY_URL default_config = ''https://citycenter.jo/pc-and-laptops/pc-and-laptops-laptops''"
  "READERS_URL default_config = ''https://www.readers.jo/''"
  "READERS_QUERY default_config = ''book''"
  by (simp_all add: default_config_def)

lemma sample_fetch_json:
  "fetch sample_lib (sample_net page js) url params reqs
     = (Inr \<lparr>status_code = 200, resp_text = page, resp_json = js\<rparr>, reqs @ [(url, params)])"
  by (simp add: fetch_def sample_net_def)

lemma sample_fetch_doc:
  "page \<noteq> [] \<Longrightarrow> fetch_doc sample_lib (sample_net page js) url reqs
     = (Inr (sample_doc page), reqs @ [(url, [])])"
  by (simp add: fetch_doc_def sample_fetch_json) (simp add: sample_lib_def)

lemma sample_prod_json_url:
  "prod_json_url default_config
     = ''https://shop.timecenter.jo/collections/men-watches/products.json''"
  by (simp add: prod_json_url_def time_base_def default_config_def rstrip_chars_def
      before_first_def)

section \<open>City Center: the extraction error\<close>

lemma city_loop_length:
  "city_loop lib cfg cards items = Inr res \<Longrightarrow> length items \<le> 8 \<Longrightarrow> length res \<le> 8"
  by (induction lib cfg cards items rule: city_loop.induct) (auto split: if_splits sum.splits)

lemma city_loop_extends:
  "city_loop lib cfg cards items = Inr res \<Longrightarrow> \<exists>more. res = items @ more"
  by (induction lib cfg cards items rule: city_loop.induct) (auto split: if_splits sum.splits)

lemma city_loop_empty:
  "city_loop lib cfg cards [] = Inr res \<Longrightarrow>
     res = [] \<longleftrightarrow> (\<forall>c \<in> set cards. \<not> truthy (city_title c))"
proof (induction cards)
  case Nil
  then show ?case by simp
next
  case (Cons c cards)
  show ?case
  proof (cases "truthy (city_title c)")
    case True
    with Cons.prems obtain h where
      "city_loop lib cfg cards
         [\<lparr>title = clean (city_title c), price = clean (city_price c), href = h\<rparr>] = Inr res"
      by (auto split: sum.splits)
    then have "res \<noteq> []" by (auto dest: city_loop_extends)
    with True show ?thesis by auto
  next
    case False
    with Cons show ?thesis by simp
  qed
qed

lemma sample_city_loop:
  "city_loop sample_lib default_config (sample_doc ''cards'' city_cards_selector) []
     = Inr [\<lparr>title = PStr ''Laptop'', price = PStr [],
             href = PStr ''https://citycenter.jo/pc-and-laptops/pc-and-laptops-laptops/p/1''\<rparr>]"
  by (simp add: sample_doc_def city_cards_selector_def jsonld_selector_def sample_card_def
      city_title_def city_price_def city_href_def text_of_def attr_of_def urljoin_def
      sample_lib_def default_config_def clean_str_def strip_def py_isspace_def)

section \<open>Time Center: the structured-data tier\<close>

text \<open>
  C3. When the fetch of the JSON endpoint succeeds and the structured-data tier builds at
  least one item, the extractor returns that tier's record, and the run has made exactly
  one request, the one to the JSON endpoint: the HTML tier, which begins with a fetch of
  the listing page, has not run.
\<close>

theorem timecenter_json_tier_returns_first:
  assumes "fetch lib net (prod_json_url cfg) [(''limit'', 12)] reqs = (Inr r, reqs')"
    and "time_json_items lib cfg r = Inr items"
    and "items \<noteq> []"
  shows "parse_timecenter_shopify lib cfg net reqs
           = (Inr \<lparr>source = prod_json_url cfg, items_count = length items,
                   items_preview = items, note_field = None\<rparr>,
              reqs @ [(prod_json_url cfg, [(''limit'', 12)])])"
  using assms fetch_log [OF assms(1)]
  by (simp add: parse_timecenter_shopify_def time_json_tier_def)

lemma sample_watch_items:
  "time_json_items sample_lib default_config
      \<lparr>status_code = 200, resp_text = ''{}'', resp_json = Inr (one_watch t)\<rparr>
     = Inr (if t = [] then []
            else [\<lparr>title = PStr (clean_str t), price = PStr ''10.00'',
                    href = PStr ''https://shop.timecenter.jo/products/w1''\<rparr>])"
  by (simp add: time_json_items_def time_json_product_def slice8_def first_of_def
      sample_lib_def one_watch_def default_config_def clean_str_def strip_def py_isspace_def
      py_get_def dict_get_def dict_get_default_def py_str_def)

theorem timecenter_json_tier_returns_first_witness:
  "parse_timecenter_shopify sample_lib default_config
       (sample_net ''{}'' (Inr (one_watch ''Watch''))) []
     = (Inr \<lparr>source = ''https://shop.timecenter.jo/collections/men-watches/products.json'',
             items_count = 1,
             items_preview = [\<lparr>title = PStr ''Watch'', price = PStr ''10.00'',
                                href = PStr ''https://shop.timecenter.jo/products/w1''\<rparr>],
             note_field = None\<rparr>,
        [(''https://shop.timecenter.jo/collections/men-watches/products.json'',
          [(''limit'', 12)])])"
  using timecenter_json_tier_returns_first
    [OF sample_fetch_json sample_watch_items [of "''Watch''"], of "[]"]
  by (simp add: sample_prod_json_url clean_str_def strip_def py_isspace_def)

section \<open>The sample runs\<close>





lemmas sample_card_simps =
  sample_doc_def jsonld_selector_def sample_card_def text_of_def attr_of_def urljoin_def
  sample_lib_def default_config_def clean_str_def strip_def py_isspace_def


lemma sample_readers_html_loop:
  "readers_html_loop sample_lib b (sample_doc ''cards'' readers_cards_selector) []
     = Inr [\<lparr>title = PStr ''Laptop'', price = PStr [],
             href = PStr (if b = [] then ''/p/1'' else b @ ''/p/1'')\<rparr>]"
  by (simp add: readers_cards_selector_def readers_title_def readers_price_def
      readers_href_def sample_card_simps)

lemma sample_doc_no_jsonld: "sample_doc ''cards'' jsonld_selector = []"
  by (simp add: sample_doc_def)

lemma sample_readers_extract:
  "readers_extract_from_doc sample_lib (sample_doc ''cards'') b
     = Inr [\<lparr>title = PStr ''Laptop'', price = PStr [],
             href = PStr (if b = [] then ''/p/1'' else b @ ''/p/1'')\<rparr>]"
  by (simp add: readers_extract_from_doc_def sample_doc_no_jsonld sample_readers_html_loop)



lemma sample_readers_cards:
  "parse_readers sample_lib default_config (sample_net ''cards'' no_json) reqs
     = (Inr \<lparr>source = ''https://www.readers.jo/'', items_count = 1,
             items_preview = [\<lparr>title = PStr ''Laptop'', price = PStr [],
               href = PStr ''https://www.readers.jo//p/1''\<rparr>],
             note_field = None\<rparr>,
        reqs @ [(''https://www.readers.jo/'', [])])"
  by (simp add: parse_readers_def sample_fetch_doc sample_readers_extract default_config_simps)

lemma sample_jsonld_nine:
  "jsonld_scripts sample_lib ''https://www.readers.jo/''
      (sample_doc ''ld9'' jsonld_selector) []
     = Inr (map (\<lambda>n. \<lparr>title = PStr n, price = PStr [],
                        href = PStr ''https://www.readers.jo//b''\<rparr>)
             [''b1'', ''b2'', ''b3'', ''b4'', ''b5'', ''b6'', ''b7'', ''b8'', ''b9''])"
  by (simp add: sample_doc_def sample_card_def sample_lib_def nine_products_def
      sample_product_def jsonld_data_def jsonld_node_def push_product_def offers_price_def
      dict_get_def dict_get_default_def urljoin_def clean_str_def strip_def py_isspace_def
      py_get_def py_str_def)

section \<open>Titles and counts\<close>

text \<open>
  C5. A product whose title is one space passes the test \<^verbatim>\<open>if title:\<close>, which looks at
  the title before \<^verbatim>\<open>_clean\<close> strips it: the Time Center extractor returns an item whose
  title is the empty string.
\<close>

theorem timecenter_blank_title_item:
  "fst (parse_timecenter_shopify sample_lib default_config
          (sample_net ''{}'' (Inr (one_watch '' ''))) [])
     = Inr \<lparr>source = ''https://shop.timecenter.jo/collections/men-watches/products.json'',
            items_count = 1,
            items_preview = [\<lparr>title = PStr [], price = PStr ''10.00'',
                               href = PStr ''https://shop.timecenter.jo/products/w1''\<rparr>],
            note_field = None\<rparr>"
  by (simp add: parse_timecenter_shopify_def time_json_tier_def sample_fetch_json
      sample_watch_items sample_prod_json_url clean_str_def strip_def py_isspace_def)

text \<open>
  The City Center and Time Center records have \<open>items_count\<close> equal to the length of the
  preview, at most 8; the preview of a Readers record has at most 8 items.
\<close>

lemma time_html_loop_length:
  "time_html_loop lib cfg cards items = Inr res \<Longrightarrow> length items \<le> 8 \<Longrightarrow> length res \<le> 8"
  by (induction lib cfg cards items rule: time_html_loop.induct)
     (auto split: if_splits sum.splits)

lemma time_json_product_length:
  "time_json_product lib cfg p items = Inr res \<Longrightarrow> length res \<le> Suc (length items)"
  by (auto simp: time_json_product_def bind_exn_Inr split: if_splits)

lemma time_json_loop_length:
  "time_json_loop lib cfg ps items = Inr res \<Longrightarrow> length res \<le> length items + length ps"
proof (induction ps arbitrary: items)
  case Nil
  then show ?case by simp
next
  case (Cons p ps)
  from Cons.prems obtain mid where
    mid: "time_json_product lib cfg p items = Inr mid"
    and rest: "time_json_loop lib cfg ps mid = Inr res"
    by (auto simp: bind_exn_Inr)
  from Cons.IH [OF rest] time_json_product_length [OF mid] show ?case by simp
qed

lemma slice8_length: "slice8 v = Inr ps \<Longrightarrow> length ps \<le> 8"
  by (cases v) (auto simp: slice8_def)

lemma time_json_items_length: "time_json_items lib cfg r = Inr items \<Longrightarrow> length items \<le> 8"
proof -
  assume "time_json_items lib cfg r = Inr items"
  then obtain v ps where "slice8 v = Inr ps" "time_json_loop lib cfg ps [] = Inr items"
    by (auto simp: time_json_items_def bind_exn_Inr)
  from slice8_length [OF this(1)] time_json_loop_length [OF this(2)] show ?thesis by simp
qed

lemma city_result_count:
  assumes "parse_citycenter_laptops lib cfg net reqs = (Inr sr, reqs')"
  shows "items_count sr = length (items_preview sr) \<and> length (items_preview sr) \<le> 8"
proof -
  from assms obtain doc items where
    loop: "city_loop lib cfg (doc city_cards_selector) [] = Inr items"
    and sr: "sr = \<lparr>source = CITY_URL cfg, items_count = length items,
                    items_preview = take 8 items, note_field = None\<rparr>"
    by (auto simp: parse_citycenter_laptops_def split: prod.splits sum.splits if_splits)
  from city_loop_length [OF loop] sr show ?thesis by simp
qed

lemma time_result_count:
  assumes "parse_timecenter_shopify lib cfg net reqs = (Inr sr, reqs')"
  shows "items_count sr = length (items_preview sr) \<and> length (items_preview sr) \<le> 8"
proof -
  obtain tier reqs1 where tier: "time_json_tier lib cfg net reqs = (tier, reqs1)"
    by (cases "time_json_tier lib cfg net reqs")
  show ?thesis
  proof (cases "\<exists>sr'. tier = Inr (Some sr')")
    case True
    with tier assms have "time_json_tier lib cfg net reqs = (Inr (Some sr), reqs')"
      by (auto simp: parse_timecenter_shopify_def)
    then obtain r items where
      "time_json_items lib cfg r = Inr items"
      "sr = \<lparr>source = prod_json_url cfg, items_count = length items,
              items_preview = items, note_field = None\<rparr>"
      by (auto simp: time_json_tier_def bind_exn_Inr split: prod.splits sum.splits if_splits)
    with time_json_items_length show ?thesis by auto
  next
    case False
    with tier assms have "time_html_tier lib cfg net reqs1 = (Inr sr, reqs')"
      by (auto simp: parse_timecenter_shopify_def split: sum.splits option.splits)
    then obtain doc items where
      loop: "time_html_loop lib cfg (doc time_cards_selector) [] = Inr items"
      and sr: "sr = \<lparr>source = TIME_URL cfg, items_count = length items,
                      items_preview = take 8 items, note_field = None\<rparr>"
      by (auto simp: time_html_tier_def split: prod.splits sum.splits if_splits)
    from time_html_loop_length [OF loop] sr show ?thesis by simp
  qed
qed

lemma readers_preview_bound:
  assumes "parse_readers lib cfg net reqs = (Inr sr, reqs')"
  shows "length (items_preview sr) \<le> 8 \<and> length (items_preview sr) \<le> items_count sr"
  using assms
  by (auto simp: parse_readers_def readers_search_def split: prod.splits sum.splits if_splits)

text \<open>
  C1. The structured-data pass of the Readers extractor has no bound: on a page whose
  block lists nine products, the record has \<open>items_count = 9\<close> and a preview of 8 items.
\<close>

theorem readers_count_exceeds_preview:
  "map_sum id (\<lambda>res. (items_count res, length (items_preview res)))
     (fst (parse_readers sample_lib default_config (sample_net ''ld9'' no_json) []))
     = Inr (9, 8)"
  by (simp add: parse_readers_def sample_fetch_doc readers_extract_from_doc_def
      default_config_simps sample_jsonld_nine)

section \<open>Readers: samples\<close>

lemma sample_fetch_404:
  "fetch sample_lib net_404 url params reqs
     = (Inl (Exn ''HTTPError'' ''Client Error''), reqs @ [(url, params)])"
  by (simp add: fetch_def net_404_def sample_lib_def)

lemma sample_fetch_doc_search:
  "fetch_doc sample_lib net_search url reqs
     = (Inr (sample_doc (if url = ''https://www.readers.jo/'' then ''empty'' else ''cards'')),
        reqs @ [(url, [])])"
  by (simp add: fetch_doc_def fetch_def net_search_def) (simp add: sample_lib_def)

lemma sample_extract_empty:
  "readers_extract_from_doc lib (sample_doc ''empty'') b = Inr []"
  by (simp add: readers_extract_from_doc_def sample_doc_def)

lemma sample_search_url:
  "search_url sample_lib default_config
     = ''https://www.readers.jo/index.php?route=product/search&search=book''"
  by (simp add: search_url_def sample_lib_def default_config_def)

section \<open>Readers: structured data before cards\<close>

lemma readers_html_loop_appends:
  "readers_html_loop lib base cards items = Inr res \<Longrightarrow>
     \<exists>hs. res = items @ hs
       \<and> (\<forall>it \<in> set hs. \<exists>crd \<in> set cards.
              truthy (readers_title crd) \<and> title it = clean (readers_title crd)
              \<and> price it = clean (readers_price crd)
              \<and> urljoin lib base (readers_href crd) = Inr (href it))"
proof (induction lib base cards items rule: readers_html_loop.induct)
  case (1 lib base items)
  then show ?case by simp
next
  case (2 lib base crd cards items)
  show ?case
  proof (cases "length items \<ge> 8")
    case True
    with "2.prems" show ?thesis by simp
  next
    case full: False
    show ?thesis
    proof (cases "truthy (readers_title crd)")
      case False
      with full "2.prems" have "readers_html_loop lib base cards items = Inr res" by simp
      from "2.IH"(2) [OF full False this] show ?thesis by auto
    next
      case True
      with full "2.prems" obtain h where
        h: "urljoin lib base (readers_href crd) = Inr h"
        and rest: "readers_html_loop lib base cards
                     (items @ [\<lparr>title = clean (readers_title crd),
                                price = clean (readers_price crd), href = h\<rparr>]) = Inr res"
        by (auto split: sum.splits)
      from "2.IH"(1) [OF full True h rest] obtain hs where
        res: "res = (items @ [\<lparr>title = clean (readers_title crd),
                                price = clean (readers_price crd), href = h\<rparr>]) @ hs"
        and hs: "\<forall>it \<in> set hs. \<exists>c \<in> set cards.
              truthy (readers_title c) \<and> title it = clean (readers_title c)
              \<and> price it = clean (readers_price c)
              \<and> urljoin lib base (readers_href c) = Inr (href it)"
        by blast
      let ?new = "\<lparr>title = clean (readers_title crd),
                    price = clean (readers_price crd), href = h\<rparr>"
      have "res = items @ (?new # hs)" using res by simp
      moreover have "\<forall>it \<in> set (?new # hs). \<exists>c \<in> set (crd # cards).
              truthy (readers_title c) \<and> title it = clean (readers_title c)
              \<and> price it = clean (readers_price c)
              \<and> urljoin lib base (readers_href c) = Inr (href it)"
        using hs True h by auto
      ultimately show ?thesis by blast
    qed
  qed
qed

text \<open>
  C10. The list the per-document extraction returns is the list \<open>js\<close> of the
  structured-data pass followed by a list \<open>hs\<close> of items built from HTML cards of the
  document: the card pass runs on \<open>js\<close> only when \<open>js\<close> has fewer than 8 items, and
  what it returns begins with \<open>js\<close> unchanged.
\<close>

theorem readers_structured_items_first:
  assumes "readers_extract_from_doc lib doc base = Inr items"
  shows "\<exists>js hs. jsonld_scripts lib base (doc jsonld_selector) [] = Inr js
           \<and> items = js @ hs
           \<and> (8 \<le> length js \<longrightarrow> hs = [])
           \<and> (length js < 8 \<longrightarrow>
                readers_html_loop lib base (doc readers_cards_selector) js = Inr (js @ hs))
           \<and> (\<forall>it \<in> set hs. \<exists>crd \<in> set (doc readers_cards_selector).
                  truthy (readers_title crd) \<and> title it = clean (readers_title crd)
                  \<and> price it = clean (readers_price crd)
                  \<and> urljoin lib base (readers_href crd) = Inr (href it))"
proof -
  from assms obtain js where
    js: "jsonld_scripts lib base (doc jsonld_selector) [] = Inr js"
    and rest: "(if length js < 8
                then readers_html_loop lib base (doc readers_cards_selector) js
                else Inr js) = Inr items"
    by (auto simp: readers_extract_from_doc_def bind_exn_Inr)
  show ?thesis
  proof (cases "length js < 8")
    case True
    with rest have
      loop: "readers_html_loop lib base (doc readers_cards_selector) js = Inr items"
      by simp
    from readers_html_loop_appends [OF loop] obtain hs where
      "items = js @ hs"
      "\<forall>it \<in> set hs. \<exists>crd \<in> set (doc readers_cards_selector).
          truthy (readers_title crd) \<and> title it = clean (readers_title crd)
          \<and> price it = clean (readers_price crd)
          \<and> urljoin lib base (readers_href crd) = Inr (href it)"
      by blast
    with True js loop show ?thesis
      by (intro exI [of _ js] exI [of _ hs]) simp
  next
    case False
    with rest have "items = js @ []" by simp
    with False js show ?thesis by (intro exI [of _ js] exI [of _ "[]"]) simp
  qed
qed

lemma sample_nine_items:
  "readers_extract_from_doc sample_lib (sample_doc ''ld9'') ''https://www.readers.jo/''
     = Inr (map (\<lambda>n. \<lparr>title = PStr n, price = PStr [],
                        href = PStr ''https://www.readers.jo//b''\<rparr>)
             [''b1'', ''b2'', ''b3'', ''b4'', ''b5'', ''b6'', ''b7'', ''b8'', ''b9''])"
  by (simp add: readers_extract_from_doc_def sample_jsonld_nine)

section \<open>The href of an item\<close>

lemma urljoin_nonempty:
  assumes "base \<noteq> []" and "\<And>u r. resolve lib base u = Inr r \<Longrightarrow> r \<noteq> []"
    and "urljoin lib base url = Inr h"
  shows "href_nonempty \<lparr>title = t, price = p, href = h\<rparr>"
  using assms
  by (cases url) (auto simp: urljoin_def href_nonempty_def split: if_splits sum.splits)

lemma city_loop_href:
  assumes base: "CITY_URL cfg \<noteq> []"
    and res: "\<And>u r. resolve lib (CITY_URL cfg) u = Inr r \<Longrightarrow> r \<noteq> []"
  shows "city_loop lib cfg cards items = Inr out \<Longrightarrow> list_all href_nonempty items
           \<Longrightarrow> list_all href_nonempty out"
proof (induction cards arbitrary: items)
  case Nil
  then show ?case by simp
next
  case (Cons crd cards)
  show ?case
  proof (cases "length items \<ge> 8")
    case True
    with Cons.prems show ?thesis by simp
  next
    case room: False
    show ?thesis
    proof (cases "truthy (city_title crd)")
      case False
      with room Cons.prems have "city_loop lib cfg cards items = Inr out" by simp
      then show ?thesis using Cons.prems(2) by (rule Cons.IH)
    next
      case True
      with room Cons.prems obtain h where
        h: "urljoin lib (CITY_URL cfg) (city_href crd) = Inr h"
        and rest: "city_loop lib cfg cards
                     (items @ [\<lparr>title = clean (city_title crd),
                                price = clean (city_price crd), href = h\<rparr>]) = Inr out"
        by (auto split: sum.splits)
      from urljoin_nonempty [OF base res h] Cons.prems(2)
      have "list_all href_nonempty
              (items @ [\<lparr>title = clean (city_title crd),
                         price = clean (city_price crd), href = h\<rparr>])"
        by simp
      with rest show ?thesis by (rule Cons.IH)
    qed
  qed
qed

lemma time_html_loop_href:
  assumes base: "TIME_URL cfg \<noteq> []"
    and res: "\<And>u r. resolve lib (TIME_URL cfg) u = Inr r \<Longrightarrow> r \<noteq> []"
  shows "time_html_loop lib cfg cards items = Inr out \<Longrightarrow> list_all href_nonempty items
           \<Longrightarrow> list_all href_nonempty out"
proof (induction cards arbitrary: items)
  case Nil
  then show ?case by simp
next
  case (Cons crd cards)
  show ?case
  proof (cases "length items \<ge> 8")
    case True
    with Cons.prems show ?thesis by simp
  next
    case room: False
    show ?thesis
    proof (cases "truthy (time_title crd)")
      case False
      with room Cons.prems have "time_html_loop lib cfg cards items = Inr out" by simp
      then show ?thesis using Cons.prems(2) by (rule Cons.IH)
    next
      case True
      with room Cons.prems obtain h where
        h: "urljoin lib (TIME_URL cfg) (time_href crd) = Inr h"
        and rest: "time_html_loop lib cfg cards
                     (items @ [\<lparr>title = clean (time_title crd),
                                price = clean (time_price crd), href = h\<rparr>]) = Inr out"
        by (auto split: sum.splits)
      from urljoin_nonempty [OF base res h] Cons.prems(2)
      have "list_all href_nonempty
              (items @ [\<lparr>title = clean (time_title crd),
                         price = clean (time_price crd), href = h\<rparr>])"
        by simp
      with rest show ?thesis by (rule Cons.IH)
    qed
  qed
qed

lemma readers_html_loop_href:
  assumes base: "base \<noteq> []"
    and res: "\<And>u r. resolve lib base u = Inr r \<Longrightarrow> r \<noteq> []"
  shows "readers_html_loop lib base cards items = Inr out \<Longrightarrow> list_all href_nonempty items
           \<Longrightarrow> list_all href_nonempty out"
proof (induction cards arbitrary: items)
  case Nil
  then show ?case by simp
next
  case (Cons crd cards)
  show ?case
  proof (cases "length items \<ge> 8")
    case True
    with Cons.prems show ?thesis by simp
  next
    case room: False
    show ?thesis
    proof (cases "truthy (readers_title crd)")
      case False
      with room Cons.prems have "readers_html_loop lib base cards items = Inr out" by simp
      then show ?thesis using Cons.prems(2) by (rule Cons.IH)
    next
      case True
      with room Cons.prems obtain h where
        h: "urljoin lib base (readers_href crd) = Inr h"
        and rest: "readers_html_loop lib base cards
                     (items @ [\<lparr>title = clean (readers_title crd),
                                price = clean (readers_price crd), href = h\<rparr>]) = Inr out"
        by (auto split: sum.splits)
      from urljoin_nonempty [OF base res h] Cons.prems(2)
      have "list_all href_nonempty
              (items @ [\<lparr>title = clean (readers_title crd),
                         price = clean (readers_price crd), href = h\<rparr>])"
        by simp
      with rest show ?thesis by (rule Cons.IH)
    qed
  qed
qed

lemma time_json_product_href:
  assumes "TIME_URL cfg \<noteq> []"
    and "time_json_product lib cfg p items = Inr out" and "list_all href_nonempty items"
  shows "list_all href_nonempty out"
  using assms
  by (auto simp: time_json_product_def bind_exn_Inr href_nonempty_def split: if_splits)

lemma time_json_loop_href:
  assumes "TIME_URL cfg \<noteq> []"
  shows "time_json_loop lib cfg ps items = Inr out \<Longrightarrow> list_all href_nonempty items
           \<Longrightarrow> list_all href_nonempty out"
proof (induction ps arbitrary: items)
  case Nil
  then show ?case by simp
next
  case (Cons p ps)
  from Cons.prems(1) obtain mid where
    mid: "time_json_product lib cfg p items = Inr mid"
    and rest: "time_json_loop lib cfg ps mid = Inr out"
    by (auto simp: bind_exn_Inr)
  from time_json_product_href [OF assms mid Cons.prems(2)] rest show ?case
    by (rule Cons.IH [rotated])
qed

lemma push_product_href:
  assumes base: "base \<noteq> []"
    and res: "\<And>u r. resolve lib base u = Inr r \<Longrightarrow> r \<noteq> []"
    and run: "push_product lib base obj items = Inr out" and inv: "list_all href_nonempty items"
  shows "list_all href_nonempty out"
proof (cases obj)
  case (PDict kvs)
  with run obtain pr where
    body: "(if truthy (dict_get kvs ''name'')
            then bind_exn (urljoin lib base (py_or [dict_get kvs ''url'', PStr []])) (\<lambda>h.
                   Inr (items @
                     [\<lparr>title = clean (dict_get kvs ''name''),
                       price = clean (PStr (if pr \<noteq> PNone then py_str lib pr else [])),
                       href = h\<rparr>]))
            else Inr items) = Inr out"
    by (auto simp: push_product_def bind_exn_Inr)
  show ?thesis
  proof (cases "truthy (dict_get kvs ''name'')")
    case False
    with body inv show ?thesis by simp
  next
    case True
    with body obtain h where
      h: "urljoin lib base (py_or [dict_get kvs ''url'', PStr []]) = Inr h"
      and out: "out = items @
                     [\<lparr>title = clean (dict_get kvs ''name''),
                       price = clean (PStr (if pr \<noteq> PNone then py_str lib pr else [])),
                       href = h\<rparr>]"
      by (auto simp: bind_exn_Inr)
    from urljoin_nonempty [OF base res h] inv out show ?thesis by simp
  qed
qed (use run inv in \<open>simp_all add: push_product_def\<close>)

lemma push_list_items_href:
  assumes base: "base \<noteq> []"
    and res: "\<And>u r. resolve lib base u = Inr r \<Longrightarrow> r \<noteq> []"
  shows "push_list_items lib base lis items = Inr out \<Longrightarrow> list_all href_nonempty items
           \<Longrightarrow> list_all href_nonempty out"
proof (induction lis arbitrary: items)
  case Nil
  then show ?case by simp
next
  case (Cons li lis)
  show ?case
  proof (cases "\<exists>kvs. li = PDict kvs")
    case False
    with Cons.prems(1) have "push_list_items lib base lis items = Inr out"
      by (cases li) simp_all
    then show ?thesis using Cons.prems(2) by (rule Cons.IH)
  next
    case True
    then obtain kvs where li: "li = PDict kvs" by blast
    with Cons.prems(1) obtain mid where
      mid: "push_product lib base (py_or [dict_get kvs ''item'', li]) items = Inr mid"
      and rest: "push_list_items lib base lis mid = Inr out"
      by (auto simp: bind_exn_Inr)
    from push_product_href [OF base res mid Cons.prems(2)] rest show ?thesis
      by (rule Cons.IH [rotated])
  qed
qed

lemma jsonld_node_href:
  assumes base: "base \<noteq> []"
    and res: "\<And>u r. resolve lib base u = Inr r \<Longrightarrow> r \<noteq> []"
    and run: "jsonld_node lib base kvs items = Inr out" and inv: "list_all href_nonempty items"
  shows "list_all href_nonempty out"
proof (cases "dict_get kvs ''@type'' = PStr ''Product''")
  case True
  with run have "push_product lib base (PDict kvs) items = Inr out"
    by (simp add: jsonld_node_def)
  from push_product_href [OF base res this inv] show ?thesis .
next
  case False
  show ?thesis
  proof (cases "dict_get kvs ''@type'' = PStr ''ItemList''")
    case True
    with False run obtain lis where "push_list_items lib base lis items = Inr out"
      by (auto simp: jsonld_node_def bind_exn_Inr)
    from push_list_items_href [OF base res this inv] show ?thesis .
  next
    case other: False
    with False run inv show ?thesis by (simp add: jsonld_node_def)
  qed
qed

lemma jsonld_entries_href:
  assumes base: "base \<noteq> []"
    and res: "\<And>u r. resolve lib base u = Inr r \<Longrightarrow> r \<noteq> []"
  shows "jsonld_entries lib base entries items = Inr out \<Longrightarrow> list_all href_nonempty items
           \<Longrightarrow> list_all href_nonempty out"
proof (induction entries arbitrary: items)
  case Nil
  then show ?case by simp
next
  case (Cons entry entries)
  show ?case
  proof (cases "\<exists>kvs. entry = PDict kvs")
    case False
    with Cons.prems(1) have "jsonld_entries lib base entries items = Inr out"
      by (cases entry) simp_all
    then show ?thesis using Cons.prems(2) by (rule Cons.IH)
  next
    case True
    then obtain kvs where "entry = PDict kvs" by blast
    with Cons.prems(1) obtain mid where
      mid: "jsonld_node lib base kvs items = Inr mid"
      and rest: "jsonld_entries lib base entries mid = Inr out"
      by (auto simp: bind_exn_Inr)
    from jsonld_node_href [OF base res mid Cons.prems(2)] rest show ?thesis
      by (rule Cons.IH [rotated])
  qed
qed

lemma jsonld_data_href:
  assumes base: "base \<noteq> []"
    and res: "\<And>u r. resolve lib base u = Inr r \<Longrightarrow> r \<noteq> []"
    and run: "jsonld_data lib base data items = Inr out" and inv: "list_all href_nonempty items"
  shows "list_all href_nonempty out"
proof (cases data)
  case (PList entries)
  with run have "jsonld_entries lib base entries items = Inr out"
    by (simp add: jsonld_data_def)
  from jsonld_entries_href [OF base res this inv] show ?thesis .
next
  case (PDict kvs)
  with run have "jsonld_node lib base kvs items = Inr out"
    by (simp add: jsonld_data_def)
  from jsonld_node_href [OF base res this inv] show ?thesis .
qed (use run inv in \<open>simp_all add: jsonld_data_def\<close>)

lemma jsonld_scripts_href:
  assumes base: "base \<noteq> []"
    and res: "\<And>u r. resolve lib base u = Inr r \<Longrightarrow> r \<noteq> []"
  shows "jsonld_scripts lib base scripts items = Inr out \<Longrightarrow> list_all href_nonempty items
           \<Longrightarrow> list_all href_nonempty out"
proof (induction scripts arbitrary: items)
  case Nil
  then show ?case by simp
next
  case (Cons script scripts)
  show ?case
  proof (cases "json_loads lib (el_text script)")
    case (Inl e)
    with Cons.prems(1) have "jsonld_scripts lib base scripts items = Inr out" by simp
    then show ?thesis using Cons.prems(2) by (rule Cons.IH)
  next
    case (Inr data)
    with Cons.prems(1) obtain mid where
      mid: "jsonld_data lib base data items = Inr mid"
      and rest: "jsonld_scripts lib base scripts mid = Inr out"
      by (auto simp: bind_exn_Inr)
    from jsonld_data_href [OF base res mid Cons.prems(2)] rest show ?thesis
      by (rule Cons.IH [rotated])
  qed
qed

lemma readers_extract_href:
  assumes base: "base \<noteq> []"
    and res: "\<And>u r. resolve lib base u = Inr r \<Longrightarrow> r \<noteq> []"
    and run: "readers_extract_from_doc lib doc base = Inr out"
  shows "list_all href_nonempty out"
proof -
  from run obtain js where
    js: "jsonld_scripts lib base (doc jsonld_selector) [] = Inr js"
    and rest: "(if length js < 8
                then readers_html_loop lib base (doc readers_cards_selector) js
                else Inr js) = Inr out"
    by (auto simp: readers_extract_from_doc_def bind_exn_Inr)
  have inv: "list_all href_nonempty js"
    using jsonld_scripts_href [OF base res js] by simp
  show ?thesis
  proof (cases "length js < 8")
    case True
    with rest have "readers_html_loop lib base (doc readers_cards_selector) js = Inr out"
      by simp
    from readers_html_loop_href [OF base res this inv] show ?thesis .
  next
    case False
    with rest inv show ?thesis by simp
  qed
qed


lemma list_all_take: "list_all P xs \<Longrightarrow> list_all P (take n xs)"
  by (auto simp: list_all_iff dest: in_set_takeD)

lemma city_result_href:
  assumes base: "CITY_URL cfg \<noteq> []"
    and res: "\<And>u r. resolve lib (CITY_URL cfg) u = Inr r \<Longrightarrow> r \<noteq> []"
    and run: "parse_citycenter_laptops lib cfg net reqs = (Inr sr, reqs')"
  shows "list_all href_nonempty (items_preview sr)"
proof -
  from run obtain doc items where
    loop: "city_loop lib cfg (doc city_cards_selector) [] = Inr items"
    and sr: "items_preview sr = take 8 items"
    by (auto simp: parse_citycenter_laptops_def split: prod.splits sum.splits if_splits)
  have "list_all href_nonempty items"
    using city_loop_href [OF base res loop] by simp
  with sr show ?thesis by (simp add: list_all_take)
qed

lemma time_html_tier_href:
  assumes base: "TIME_URL cfg \<noteq> []"
    and res: "\<And>u r. resolve lib (TIME_URL cfg) u = Inr r \<Longrightarrow> r \<noteq> []"
    and run: "time_html_tier lib cfg net reqs = (Inr sr, reqs')"
  shows "list_all href_nonempty (items_preview sr)"
proof -
  from run obtain doc items where
    loop: "time_html_loop lib cfg (doc time_cards_selector) [] = Inr items"
    and sr: "items_preview sr = take 8 items"
    by (auto simp: time_html_tier_def split: prod.splits sum.splits if_splits)
  have "list_all href_nonempty items"
    using time_html_loop_href [OF base res loop] by simp
  with sr show ?thesis by (simp add: list_all_take)
qed

lemma time_json_tier_href:
  assumes base: "TIME_URL cfg \<noteq> []"
    and run: "time_json_tier lib cfg net reqs = (Inr (Some sr), reqs')"
  shows "list_all href_nonempty (items_preview sr)"
proof -
  from run obtain r items where
    items: "time_json_items lib cfg r = Inr items" and sr: "items_preview sr = items"
    by (auto simp: time_json_tier_def bind_exn_Inr split: prod.splits sum.splits if_splits)
  from items obtain ps where "time_json_loop lib cfg ps [] = Inr items"
    by (auto simp: time_json_items_def bind_exn_Inr)
  from time_json_loop_href [OF base this] sr show ?thesis by simp
qed

lemma time_result_href:
  assumes base: "TIME_URL cfg \<noteq> []"
    and res: "\<And>u r. resolve lib (TIME_URL cfg) u = Inr r \<Longrightarrow> r \<noteq> []"
    and run: "parse_timecenter_shopify lib cfg net reqs = (Inr sr, reqs')"
  shows "list_all href_nonempty (items_preview sr)"
proof -
  obtain tier reqs1 where tier: "time_json_tier lib cfg net reqs = (tier, reqs1)"
    by (cases "time_json_tier lib cfg net reqs")
  show ?thesis
  proof (cases "\<exists>sr'. tier = Inr (Some sr')")
    case True
    with tier run have "time_json_tier lib cfg net reqs = (Inr (Some sr), reqs')"
      by (auto simp: parse_timecenter_shopify_def)
    from time_json_tier_href [OF base this] show ?thesis .
  next
    case False
    with tier run have "time_html_tier lib cfg net reqs1 = (Inr sr, reqs')"
      by (auto simp: parse_timecenter_shopify_def split: sum.splits option.splits)
    from time_html_tier_href [OF base res this] show ?thesis .
  qed
qed

lemma search_url_nonempty: "search_url lib cfg \<noteq> []"
  by (simp add: search_url_def)

lemma readers_search_href:
  assumes res: "\<And>u r. resolve lib (search_url lib cfg) u = Inr r \<Longrightarrow> r \<noteq> []"
    and run: "readers_search lib cfg net reqs = (Inr sr, reqs')"
  shows "list_all href_nonempty (items_preview sr)"
proof -
  from run obtain doc items where
    ex: "readers_extract_from_doc lib doc (search_url lib cfg) = Inr items"
    and sr: "items_preview sr = take 8 items"
    by (auto simp: readers_search_def split: prod.splits sum.splits if_splits)
  from readers_extract_href [OF search_url_nonempty res ex] sr show ?thesis
    by (simp add: list_all_take)
qed

lemma readers_result_href:
  assumes base: "READERS_URL cfg \<noteq> []"
    and res1: "\<And>u r. resolve lib (READERS_URL cfg) u = Inr r \<Longrightarrow> r \<noteq> []"
    and res2: "\<And>u r. resolve lib (search_url lib cfg) u = Inr r \<Longrightarrow> r \<noteq> []"
    and run: "parse_readers lib cfg net reqs = (Inr sr, reqs')"
  shows "list_all href_nonempty (items_preview sr)"
proof -
  from run obtain doc items reqs1 where
    ex: "readers_extract_from_doc lib doc (READERS_URL cfg) = Inr items"
    and rest: "(if items = [] then readers_search lib cfg net reqs1
                else (Inr \<lparr>source = READERS_URL cfg, items_count = length items,
                           items_preview = take 8 items, note_field = None\<rparr>, reqs1))
                 = (Inr sr, reqs')"
    by (auto simp: parse_readers_def split: prod.splits sum.splits)
  show ?thesis
  proof (cases "items = []")
    case True
    with rest have "readers_search lib cfg net reqs1 = (Inr sr, reqs')" by simp
    from readers_search_href [OF res2 this] show ?thesis .
  next
    case False
    with rest have "items_preview sr = take 8 items" by auto
    with readers_extract_href [OF base res1 ex] show ?thesis
      by (simp add: list_all_take)
  qed
qed

text \<open>
  C9. When the three configured addresses are not empty and the resolution of a reference
  against a page's base (one of the three, or the search address) never gives the empty
  string, every item of a record returned by any of the three extractors has a non-empty
  \<^verbatim>\<open>str\<close> as \<^verbatim>\<open>href\<close>.
\<close>

theorem produced_items_have_href:
  assumes "CITY_URL cfg \<noteq> []" and "TIME_URL cfg \<noteq> []" and "READERS_URL cfg \<noteq> []"
    and res: "\<And>b u r. b \<in> {CITY_URL cfg, TIME_URL cfg, READERS_URL cfg, search_url lib cfg}
                \<Longrightarrow> resolve lib b u = Inr r \<Longrightarrow> r \<noteq> []"
    and run: "parse_citycenter_laptops lib cfg net reqs = (Inr sr, reqs')
              \<or> parse_timecenter_shopify lib cfg net reqs = (Inr sr, reqs')
              \<or> parse_readers lib cfg net reqs = (Inr sr, reqs')"
  shows "list_all href_nonempty (items_preview sr)"
proof -
  have c: "\<And>u r. resolve lib (CITY_URL cfg) u = Inr r \<Longrightarrow> r \<noteq> []"
    and t: "\<And>u r. resolve lib (TIME_URL cfg) u = Inr r \<Longrightarrow> r \<noteq> []"
    and r: "\<And>u r. resolve lib (READERS_URL cfg) u = Inr r \<Longrightarrow> r \<noteq> []"
    and s: "\<And>u r. resolve lib (search_url lib cfg) u = Inr r \<Longrightarrow> r \<noteq> []"
    using res by blast+
  from run show ?thesis
  proof (elim disjE)
    assume "parse_citycenter_laptops lib cfg net reqs = (Inr sr, reqs')"
    from city_result_href [OF assms(1) c this] show ?thesis .
  next
    assume "parse_timecenter_shopify lib cfg net reqs = (Inr sr, reqs')"
    from time_result_href [OF assms(2) t this] show ?thesis .
  next
    assume "parse_readers lib cfg net reqs = (Inr sr, reqs')"
    from readers_result_href [OF assms(3) r s this] show ?thesis .
  qed
qed

theorem produced_items_have_href_witness:
  "list_all href_nonempty
     [\<lparr>title = PStr ''Laptop'', price = PStr [],
       href = PStr ''https://www.readers.jo//p/1''\<rparr>]"
proof -
  have res: "\<And>b u r. b \<in> {CITY_URL default_config, TIME_URL default_config,
                           READERS_URL default_config, search_url sample_lib default_config}
               \<Longrightarrow> resolve sample_lib b u = Inr r \<Longrightarrow> r \<noteq> []"
    by (auto simp: sample_lib_def default_config_simps search_url_def)
  have run: "parse_citycenter_laptops sample_lib default_config (sample_net ''cards'' no_json) []
               = (Inr \<lparr>source = ''https://www.readers.jo/'', items_count = 1,
                     items_preview = [\<lparr>title = PStr ''Laptop'', price = PStr [],
                       href = PStr ''https://www.readers.jo//p/1''\<rparr>],
                     note_field = None\<rparr>, [] @ [(''https://www.readers.jo/'', [])])
             \<or> parse_timecenter_shopify sample_lib default_config
                   (sample_net ''cards'' no_json) []
               = (Inr \<lparr>source = ''https://www.readers.jo/'', items_count = 1,
                     items_preview = [\<lparr>title = PStr ''Laptop'', price = PStr [],
                       href = PStr ''https://www.readers.jo//p/1''\<rparr>],
                     note_field = None\<rparr>, [] @ [(''https://www.readers.jo/'', [])])
             \<or> parse_readers sample_lib default_config (sample_net ''cards'' no_json) []
               = (Inr \<lparr>source = ''https://www.readers.jo/'', items_count = 1,
                     items_preview = [\<lparr>title = PStr ''Laptop'', price = PStr [],
                       href = PStr ''https://www.readers.jo//p/1''\<rparr>],
                     note_field = None\<rparr>, [] @ [(''https://www.readers.jo/'', [])])"
    using sample_readers_cards [of "[]"] by blast
  from produced_items_have_href [OF _ _ _ res run] show ?thesis
    by (simp add: default_config_simps)
qed


section \<open>City Center: the outcomes of the extractor\<close>

lemma city_loop_raises:
  "city_loop lib cfg cards items = Inl e \<Longrightarrow>
     \<exists>crd \<in> set cards. truthy (city_title crd)
        \<and> urljoin lib (CITY_URL cfg) (city_href crd) = Inl e"
proof (induction cards arbitrary: items)
  case Nil
  then show ?case by simp
next
  case (Cons c cards)
  show ?case
  proof (cases "urljoin lib (CITY_URL cfg) (city_href c)")
    case (Inl x)
    show ?thesis
    proof (cases "truthy (city_title c)")
      case True
      with Cons.prems Inl have "x = e" by (simp split: if_splits)
      with True Inl show ?thesis by auto
    next
      case False
      with Cons.prems have "city_loop lib cfg cards items = Inl e" by (simp split: if_splits)
      from Cons.IH [OF this] show ?thesis by auto
    qed
  next
    case (Inr h)
    with Cons.prems obtain items' where "city_loop lib cfg cards items' = Inl e"
      by (auto split: if_splits)
    from Cons.IH [OF this] show ?thesis by auto
  qed
qed

text \<open>
  C7, as amended. An error of the fetch or of the page parser leaves the extractor
  unchanged. Once the page is read, the card loop either raises, and then the extractor
  raises that same error, which \<^verbatim>\<open>urljoin\<close> raised on the link of a card with a truthy
  title, whatever had been collected before; or it runs through all the cards, and then
  the extractor raises its extraction error exactly when no item was collected, which is
  exactly when no card has a truthy title, and with at least one item it returns the
  success record and does not raise.
\<close>

theorem citycenter_outcomes:
  "(fetch_doc lib net (CITY_URL cfg) reqs = (Inl e, reqs') \<longrightarrow>
      parse_citycenter_laptops lib cfg net reqs = (Inl e, reqs'))
   \<and> (fetch_doc lib net (CITY_URL cfg) reqs = (Inr doc, reqs')
        \<and> city_loop lib cfg (doc city_cards_selector) [] = Inl e \<longrightarrow>
        parse_citycenter_laptops lib cfg net reqs = (Inl e, reqs')
        \<and> (\<exists>crd \<in> set (doc city_cards_selector). truthy (city_title crd)
              \<and> urljoin lib (CITY_URL cfg) (city_href crd) = Inl e))
   \<and> (fetch_doc lib net (CITY_URL cfg) reqs = (Inr doc, reqs')
        \<and> city_loop lib cfg (doc city_cards_selector) [] = Inr items \<longrightarrow>
        (items = [] \<longleftrightarrow> (\<forall>c \<in> set (doc city_cards_selector). \<not> truthy (city_title c)))
        \<and> (items = [] \<longrightarrow>
              parse_citycenter_laptops lib cfg net reqs = (Inl city_error, reqs'))
        \<and> (items \<noteq> [] \<longrightarrow>
              parse_citycenter_laptops lib cfg net reqs
                = (Inr \<lparr>source = CITY_URL cfg, items_count = length items,
                        items_preview = take 8 items, note_field = None\<rparr>, reqs')))"
proof (intro conjI impI)
  assume "fetch_doc lib net (CITY_URL cfg) reqs = (Inl e, reqs')"
  then show "parse_citycenter_laptops lib cfg net reqs = (Inl e, reqs')"
    by (simp add: parse_citycenter_laptops_def)
next
  assume a: "fetch_doc lib net (CITY_URL cfg) reqs = (Inr doc, reqs')
             \<and> city_loop lib cfg (doc city_cards_selector) [] = Inl e"
  then show "parse_citycenter_laptops lib cfg net reqs = (Inl e, reqs')"
    by (simp add: parse_citycenter_laptops_def)
  from a show "\<exists>crd \<in> set (doc city_cards_selector). truthy (city_title crd)
                 \<and> urljoin lib (CITY_URL cfg) (city_href crd) = Inl e"
    by (blast dest: city_loop_raises)
next
  assume a: "fetch_doc lib net (CITY_URL cfg) reqs = (Inr doc, reqs')
             \<and> city_loop lib cfg (doc city_cards_selector) [] = Inr items"
  then show "items = [] \<longleftrightarrow> (\<forall>c \<in> set (doc city_cards_selector). \<not> truthy (city_title c))"
    by (blast dest: city_loop_empty)
  {
    assume "items = []"
    with a show "parse_citycenter_laptops lib cfg net reqs = (Inl city_error, reqs')"
      by (simp add: parse_citycenter_laptops_def)
  }
  {
    assume "items \<noteq> []"
    with a show "parse_citycenter_laptops lib cfg net reqs
                = (Inr \<lparr>source = CITY_URL cfg, items_count = length items,
                        items_preview = take 8 items, note_field = None\<rparr>, reqs')"
      by (simp add: parse_citycenter_laptops_def)
  }
qed

lemma ipv6_fetch_doc:
  "fetch_doc ipv6_lib (sample_net ''two'' js) url reqs = (Inr two_cards_doc, reqs @ [(url, [])])"
  by (simp add: fetch_doc_def fetch_def sample_net_def) (simp add: ipv6_lib_def)

lemmas two_cards_simps =
  two_cards_doc_def jsonld_selector_def sample_card_def text_of_def attr_of_def urljoin_def
  ipv6_lib_def sample_lib_def default_config_def clean_str_def strip_def py_isspace_def

lemma ipv6_city_first:
  "city_loop ipv6_lib default_config (butlast (two_cards_doc city_cards_selector)) []
     = Inr [\<lparr>title = PStr ''Laptop'', price = PStr [],
             href = PStr ''https://citycenter.jo/pc-and-laptops/pc-and-laptops-laptops/p/1''\<rparr>]"
  by (simp add: city_cards_selector_def city_title_def city_price_def city_href_def
      two_cards_simps)

lemma ipv6_city_loop:
  "city_loop ipv6_lib default_config (two_cards_doc city_cards_selector) []
     = Inl (Exn ''ValueError'' ''Invalid IPv6 URL'')"
  by (simp add: city_cards_selector_def city_title_def city_price_def city_href_def
      two_cards_simps)

text \<open>
  C7, as stated, fails: on a page whose first card gives an item and whose second card has
  a title and the link \<^verbatim>\<open>http://[\<close>, one item is collected from the first card and
  \<^verbatim>\<open>urljoin\<close> then raises \<^verbatim>\<open>ValueError\<close> on the second: the extractor raises although an
  item was collected, and what it raises is not the extraction error.
\<close>

theorem citycenter_raises_after_item:
  "city_loop ipv6_lib default_config (butlast (two_cards_doc city_cards_selector)) []
     = Inr [\<lparr>title = PStr ''Laptop'', price = PStr [],
             href = PStr ''https://citycenter.jo/pc-and-laptops/pc-and-laptops-laptops/p/1''\<rparr>]
   \<and> parse_citycenter_laptops ipv6_lib default_config (sample_net ''two'' no_json) []
     = (Inl (Exn ''ValueError'' ''Invalid IPv6 URL''),
        [(''https://citycenter.jo/pc-and-laptops/pc-and-laptops-laptops'', [])])"
  by (simp add: ipv6_city_first parse_citycenter_laptops_def ipv6_fetch_doc ipv6_city_loop
      default_config_simps)

lemma sample_city_loop_empty:
  "city_loop sample_lib default_config (sample_doc ''empty'' city_cards_selector) [] = Inr []"
  by (simp add: sample_doc_def)

theorem citycenter_outcomes_witness:
  "parse_citycenter_laptops sample_lib default_config (sample_net ''empty'' no_json) []
     = (Inl city_error, [(''https://citycenter.jo/pc-and-laptops/pc-and-laptops-laptops'', [])])
   \<and> parse_citycenter_laptops sample_lib default_config (sample_net ''cards'' no_json) []
     = (Inr \<lparr>source = ''https://citycenter.jo/pc-and-laptops/pc-and-laptops-laptops'',
             items_count = 1,
             items_preview = [\<lparr>title = PStr ''Laptop'', price = PStr [],
               href = PStr ''https://citycenter.jo/pc-and-laptops/pc-and-laptops-laptops/p/1''\<rparr>],
             note_field = None\<rparr>,
        [(''https://citycenter.jo/pc-and-laptops/pc-and-laptops-laptops'', [])])
   \<and> parse_citycenter_laptops ipv6_lib default_config (sample_net ''two'' no_json) []
     = (Inl (Exn ''ValueError'' ''Invalid IPv6 URL''),
        [(''https://citycenter.jo/pc-and-laptops/pc-and-laptops-laptops'', [])])"
proof -
  have f1: "fetch_doc sample_lib (sample_net ''empty'' no_json) (CITY_URL default_config) []
              = (Inr (sample_doc ''empty''), [] @ [(CITY_URL default_config, [])])"
    by (rule sample_fetch_doc) simp
  have f2: "fetch_doc sample_lib (sample_net ''cards'' no_json) (CITY_URL default_config) []
              = (Inr (sample_doc ''cards''), [] @ [(CITY_URL default_config, [])])"
    by (rule sample_fetch_doc) simp
  note empty = citycenter_outcomes
    [THEN conjunct2, THEN conjunct2, THEN mp, OF conjI, OF f1 sample_city_loop_empty,
     THEN conjunct2, THEN conjunct1, THEN mp, OF refl]
  note cards = citycenter_outcomes
    [THEN conjunct2, THEN conjunct2, THEN mp, OF conjI, OF f2 sample_city_loop,
     THEN conjunct2, THEN conjunct2]
  note bad = citycenter_outcomes
    [THEN conjunct2, THEN conjunct1, THEN mp, OF conjI,
     OF ipv6_fetch_doc [of no_json "CITY_URL default_config" "[]"] ipv6_city_loop,
     THEN conjunct1]
  from empty cards bad show ?thesis
    by (simp add: default_config_simps)
qed


section \<open>Readers: the search fallback\<close>

lemma readers_search_log:
  "snd (readers_search lib cfg net reqs) = reqs @ [(search_url lib cfg, [])]"
  by (cases "fetch_doc lib net (search_url lib cfg) reqs")
     (auto simp: readers_search_def split: sum.splits dest: fetch_doc_log)

text \<open>
  C4, as amended. An error of the fetch, of the page parser or of the extraction, on the
  home page or on the search page, leaves the extractor unchanged. With at least one item
  on the home page the extractor returns the record of that page after the one request.
  With no item there it makes exactly one more request, to
  \<^verbatim>\<open>https://www.readers.jo/index.php?route=product/search&search=\<close> followed by the
  configured search term url-encoded; it raises its own error only when the search page
  gives no item either, and otherwise returns the record of the search page with the
  note naming the search term.
\<close>

theorem readers_outcomes:
  "(fetch_doc lib net (READERS_URL cfg) reqs = (Inl e, reqs1) \<longrightarrow>
      parse_readers lib cfg net reqs = (Inl e, reqs1))
   \<and> (fetch_doc lib net (READERS_URL cfg) reqs = (Inr doc, reqs1) \<longrightarrow>
        reqs1 = reqs @ [(READERS_URL cfg, [])]
        \<and> (readers_extract_from_doc lib doc (READERS_URL cfg) = Inl e \<longrightarrow>
              parse_readers lib cfg net reqs = (Inl e, reqs1))
        \<and> (readers_extract_from_doc lib doc (READERS_URL cfg) = Inr items \<and> items \<noteq> [] \<longrightarrow>
              parse_readers lib cfg net reqs
                = (Inr \<lparr>source = READERS_URL cfg, items_count = length items,
                        items_preview = take 8 items, note_field = None\<rparr>, reqs1))
        \<and> (readers_extract_from_doc lib doc (READERS_URL cfg) = Inr [] \<longrightarrow>
              search_url lib cfg
                = ''https://www.readers.jo/index.php?route=product/search&search=''
                    @ quote_plus lib (READERS_QUERY cfg)
              \<and> snd (parse_readers lib cfg net reqs) = reqs1 @ [(search_url lib cfg, [])]
              \<and> (fetch_doc lib net (search_url lib cfg) reqs1 = (Inl e, reqs2) \<longrightarrow>
                    parse_readers lib cfg net reqs = (Inl e, reqs2))
              \<and> (fetch_doc lib net (search_url lib cfg) reqs1 = (Inr doc2, reqs2) \<longrightarrow>
                    (readers_extract_from_doc lib doc2 (search_url lib cfg) = Inl e \<longrightarrow>
                       parse_readers lib cfg net reqs = (Inl e, reqs2))
                    \<and> (readers_extract_from_doc lib doc2 (search_url lib cfg) = Inr [] \<longrightarrow>
                          parse_readers lib cfg net reqs = (Inl readers_error, reqs2))
                    \<and> (readers_extract_from_doc lib doc2 (search_url lib cfg) = Inr items2
                          \<and> items2 \<noteq> [] \<longrightarrow>
                          parse_readers lib cfg net reqs
                            = (Inr \<lparr>source = search_url lib cfg,
                                    items_count = length items2,
                                    items_preview = take 8 items2,
                                    note_field =
                                      Some (''Search fallback for '' @ [CHR 0x27]
                                              @ READERS_QUERY cfg @ [CHR 0x27])\<rparr>,
                               reqs2)))))"
proof (intro conjI impI)
  assume "fetch_doc lib net (READERS_URL cfg) reqs = (Inl e, reqs1)"
  then show "parse_readers lib cfg net reqs = (Inl e, reqs1)"
    by (simp add: parse_readers_def)
next
  assume home: "fetch_doc lib net (READERS_URL cfg) reqs = (Inr doc, reqs1)"
  then show "reqs1 = reqs @ [(READERS_URL cfg, [])]" by (rule fetch_doc_log)
  {
    assume "readers_extract_from_doc lib doc (READERS_URL cfg) = Inl e"
    with home show "parse_readers lib cfg net reqs = (Inl e, reqs1)"
      by (simp add: parse_readers_def)
  }
  {
    assume "readers_extract_from_doc lib doc (READERS_URL cfg) = Inr items \<and> items \<noteq> []"
    with home show "parse_readers lib cfg net reqs
                = (Inr \<lparr>source = READERS_URL cfg, items_count = length items,
                        items_preview = take 8 items, note_field = None\<rparr>, reqs1)"
      by (simp add: parse_readers_def)
  }
  assume none: "readers_extract_from_doc lib doc (READERS_URL cfg) = Inr []"
  with home have search: "parse_readers lib cfg net reqs = readers_search lib cfg net reqs1"
    by (simp add: parse_readers_def)
  show "search_url lib cfg
          = ''https://www.readers.jo/index.php?route=product/search&search=''
              @ quote_plus lib (READERS_QUERY cfg)"
    by (simp add: search_url_def)
  show "snd (parse_readers lib cfg net reqs) = reqs1 @ [(search_url lib cfg, [])]"
    by (simp add: search readers_search_log)
  {
    assume "fetch_doc lib net (search_url lib cfg) reqs1 = (Inl e, reqs2)"
    then show "parse_readers lib cfg net reqs = (Inl e, reqs2)"
      by (simp add: search readers_search_def)
  }
  assume page: "fetch_doc lib net (search_url lib cfg) reqs1 = (Inr doc2, reqs2)"
  {
    assume "readers_extract_from_doc lib doc2 (search_url lib cfg) = Inl e"
    with page show "parse_readers lib cfg net reqs = (Inl e, reqs2)"
      by (simp add: search readers_search_def)
  }
  {
    assume "readers_extract_from_doc lib doc2 (search_url lib cfg) = Inr []"
    with page show "parse_readers lib cfg net reqs = (Inl readers_error, reqs2)"
      by (simp add: search readers_search_def)
  }
  {
    assume "readers_extract_from_doc lib doc2 (search_url lib cfg) = Inr items2
            \<and> items2 \<noteq> []"
    with page show "parse_readers lib cfg net reqs
              = (Inr \<lparr>source = search_url lib cfg, items_count = length items2,
                      items_preview = take 8 items2,
                      note_field = Some (''Search fallback for '' @ [CHR 0x27]
                                           @ READERS_QUERY cfg @ [CHR 0x27])\<rparr>, reqs2)"
      by (simp add: search readers_search_def readers_note_def)
  }
qed


lemma ipv6_readers_first:
  "readers_html_loop ipv6_lib ''https://www.readers.jo/''
      (butlast (two_cards_doc readers_cards_selector)) []
     = Inr [\<lparr>title = PStr ''Laptop'', price = PStr [],
             href = PStr ''https://www.readers.jo//p/1''\<rparr>]"
  by (simp add: readers_cards_selector_def readers_title_def readers_price_def
      readers_href_def two_cards_simps)

lemma ipv6_readers_extract:
  "readers_extract_from_doc ipv6_lib two_cards_doc ''https://www.readers.jo/''
     = Inl (Exn ''ValueError'' ''Invalid IPv6 URL'')"
  by (simp add: readers_extract_from_doc_def readers_cards_selector_def readers_title_def
      readers_price_def readers_href_def two_cards_simps)

text \<open>
  C4, as stated, fails in its last part: on a home page whose first card gives an item and
  whose second card has a title and the link \<^verbatim>\<open>http://[\<close>, \<^verbatim>\<open>urljoin\<close> raises
  \<^verbatim>\<open>ValueError\<close> after one item was built, and the extractor raises after the single
  request for the home page: no page has given zero items and the search page was never
  requested.
\<close>

theorem readers_raises_on_bad_link:
  "readers_html_loop ipv6_lib ''https://www.readers.jo/''
      (butlast (two_cards_doc readers_cards_selector)) []
     = Inr [\<lparr>title = PStr ''Laptop'', price = PStr [],
             href = PStr ''https://www.readers.jo//p/1''\<rparr>]
   \<and> parse_readers ipv6_lib default_config (sample_net ''two'' no_json) []
     = (Inl (Exn ''ValueError'' ''Invalid IPv6 URL''), [(''https://www.readers.jo/'', [])])"
  by (simp add: ipv6_readers_first parse_readers_def ipv6_fetch_doc ipv6_readers_extract
      default_config_simps)

theorem readers_outcomes_witness:
  "parse_readers sample_lib default_config net_search []
     = (Inr \<lparr>source = ''https://www.readers.jo/index.php?route=product/search&search=book'',
             items_count = 1,
             items_preview = [\<lparr>title = PStr ''Laptop'', price = PStr [],
               href = PStr
                 ''https://www.readers.jo/index.php?route=product/search&search=book/p/1''\<rparr>],
             note_field = Some (''Search fallback for '' @ [CHR 0x27] @ ''book'' @ [CHR 0x27])\<rparr>,
        [(''https://www.readers.jo/'', []),
         (''https://www.readers.jo/index.php?route=product/search&search=book'', [])])
   \<and> parse_readers sample_lib default_config (sample_net ''empty'' no_json) []
     = (Inl readers_error,
        [(''https://www.readers.jo/'', []),
         (''https://www.readers.jo/index.php?route=product/search&search=book'', [])])
   \<and> parse_readers sample_lib default_config (sample_net ''cards'' no_json) []
     = (Inr \<lparr>source = ''https://www.readers.jo/'', items_count = 1,
             items_preview = [\<lparr>title = PStr ''Laptop'', price = PStr [],
               href = PStr ''https://www.readers.jo//p/1''\<rparr>],
             note_field = None\<rparr>,
        [(''https://www.readers.jo/'', [])])"
proof -
  let ?home = "[(''https://www.readers.jo/'', [])]"
  let ?search = "''https://www.readers.jo/index.php?route=product/search&search=book''"
  have h1: "fetch_doc sample_lib net_search (READERS_URL default_config) []
              = (Inr (sample_doc ''empty''), ?home)"
    by (simp add: sample_fetch_doc_search default_config_simps)
  have h2: "readers_extract_from_doc sample_lib (sample_doc ''empty'')
              (READERS_URL default_config) = Inr []"
    by (rule sample_extract_empty)
  have h3: "fetch_doc sample_lib net_search (search_url sample_lib default_config) ?home
              = (Inr (sample_doc ''cards''), ?home @ [(?search, [])])"
    by (simp add: sample_fetch_doc_search sample_search_url)
  have h4: "readers_extract_from_doc sample_lib (sample_doc ''cards'')
              (search_url sample_lib default_config)
              = Inr [\<lparr>title = PStr ''Laptop'', price = PStr [],
                      href = PStr (?search @ ''/p/1'')\<rparr>]
            \<and> [\<lparr>title = PStr ''Laptop'', price = PStr [],
                      href = PStr (?search @ ''/p/1'')\<rparr>] \<noteq> []"
    by (simp add: sample_readers_extract sample_search_url)
  note found = readers_outcomes
    [THEN conjunct2, THEN mp, OF h1, THEN conjunct2, THEN conjunct2, THEN conjunct2,
     THEN mp, OF h2, THEN conjunct2, THEN conjunct2, THEN conjunct2, THEN mp, OF h3,
     THEN conjunct2, THEN conjunct2, THEN mp, OF h4]
  have e1: "fetch_doc sample_lib (sample_net ''empty'' no_json) (READERS_URL default_config) []
              = (Inr (sample_doc ''empty''), ?home)"
    by (simp add: sample_fetch_doc default_config_simps)
  have e3: "fetch_doc sample_lib (sample_net ''empty'' no_json)
              (search_url sample_lib default_config) ?home
              = (Inr (sample_doc ''empty''), ?home @ [(?search, [])])"
    by (simp add: sample_fetch_doc sample_search_url)
  have e4: "readers_extract_from_doc sample_lib (sample_doc ''empty'')
              (search_url sample_lib default_config) = Inr []"
    by (rule sample_extract_empty)
  note none = readers_outcomes
    [THEN conjunct2, THEN mp, OF e1, THEN conjunct2, THEN conjunct2, THEN conjunct2,
     THEN mp, OF h2, THEN conjunct2, THEN conjunct2, THEN conjunct2, THEN mp, OF e3,
     THEN conjunct2, THEN conjunct1, THEN mp, OF e4]
  have c1: "fetch_doc sample_lib (sample_net ''cards'' no_json) (READERS_URL default_config) []
              = (Inr (sample_doc ''cards''), ?home)"
    by (simp add: sample_fetch_doc default_config_simps)
  have c2: "readers_extract_from_doc sample_lib (sample_doc ''cards'')
              (READERS_URL default_config)
              = Inr [\<lparr>title = PStr ''Laptop'', price = PStr [],
                      href = PStr ''https://www.readers.jo//p/1''\<rparr>]
            \<and> [\<lparr>title = PStr ''Laptop'', price = PStr [],
                      href = PStr ''https://www.readers.jo//p/1''\<rparr>] \<noteq> []"
    by (simp add: sample_readers_extract default_config_simps)
  note direct = readers_outcomes
    [THEN conjunct2, THEN mp, OF c1, THEN conjunct2, THEN conjunct2, THEN conjunct1,
     THEN mp, OF c2]
  have a: "parse_readers sample_lib default_config (sample_net ''empty'' no_json) []
     = (Inl readers_error,
        [(''https://www.readers.jo/'', []),
         (''https://www.readers.jo/index.php?route=product/search&search=book'', [])])"
    using none by (simp add: sample_search_url default_config_simps)
  from found direct a show ?thesis
    by (simp add: sample_search_url default_config_simps)
qed


section \<open>Readers: a page with structured data and cards\<close>

lemmas mixed_simps =
  mixed_doc_def mixed_lib_def jsonld_selector_def sample_card_def sample_lib_def
  sample_product_def jsonld_data_def jsonld_node_def push_product_def offers_price_def
  dict_get_def dict_get_default_def urljoin_def clean_str_def strip_def py_isspace_def
  py_get_def py_str_def text_of_def attr_of_def

lemma mixed_jsonld:
  "jsonld_scripts mixed_lib ''https://www.readers.jo/'' (mixed_doc jsonld_selector) []
     = Inr [\<lparr>title = PStr ''b1'', price = PStr [], href = PStr ''https://www.readers.jo//b''\<rparr>,
            \<lparr>title = PStr ''b2'', price = PStr [], href = PStr ''https://www.readers.jo//b''\<rparr>]"
  by (simp add: mixed_simps)

lemma mixed_cards:
  "readers_html_loop mixed_lib ''https://www.readers.jo/'' (mixed_doc readers_cards_selector)
      [\<lparr>title = PStr ''b1'', price = PStr [], href = PStr ''https://www.readers.jo//b''\<rparr>,
       \<lparr>title = PStr ''b2'', price = PStr [], href = PStr ''https://www.readers.jo//b''\<rparr>]
     = Inr [\<lparr>title = PStr ''b1'', price = PStr [], href = PStr ''https://www.readers.jo//b''\<rparr>,
            \<lparr>title = PStr ''b2'', price = PStr [], href = PStr ''https://www.readers.jo//b''\<rparr>,
            \<lparr>title = PStr ''Laptop'', price = PStr [],
              href = PStr ''https://www.readers.jo//p/1''\<rparr>]"
  by (simp add: readers_cards_selector_def readers_title_def readers_price_def
      readers_href_def mixed_simps)

lemma mixed_extract:
  "readers_extract_from_doc mixed_lib mixed_doc ''https://www.readers.jo/''
     = Inr [\<lparr>title = PStr ''b1'', price = PStr [], href = PStr ''https://www.readers.jo//b''\<rparr>,
            \<lparr>title = PStr ''b2'', price = PStr [], href = PStr ''https://www.readers.jo//b''\<rparr>,
            \<lparr>title = PStr ''Laptop'', price = PStr [],
              href = PStr ''https://www.readers.jo//p/1''\<rparr>]"
  by (simp add: readers_extract_from_doc_def mixed_jsonld mixed_cards)

theorem readers_structured_items_first_witness:
  "\<exists>js hs. jsonld_scripts mixed_lib ''https://www.readers.jo/''
              (mixed_doc jsonld_selector) [] = Inr js
     \<and> [\<lparr>title = PStr ''b1'', price = PStr [], href = PStr ''https://www.readers.jo//b''\<rparr>,
         \<lparr>title = PStr ''b2'', price = PStr [], href = PStr ''https://www.readers.jo//b''\<rparr>,
         \<lparr>title = PStr ''Laptop'', price = PStr [],
           href = PStr ''https://www.readers.jo//p/1''\<rparr>] = js @ hs
     \<and> js = [\<lparr>title = PStr ''b1'', price = PStr [],
                href = PStr ''https://www.readers.jo//b''\<rparr>,
               \<lparr>title = PStr ''b2'', price = PStr [],
                href = PStr ''https://www.readers.jo//b''\<rparr>]
     \<and> hs = [\<lparr>title = PStr ''Laptop'', price = PStr [],
                href = PStr ''https://www.readers.jo//p/1''\<rparr>]
     \<and> readers_html_loop mixed_lib ''https://www.readers.jo/''
           (mixed_doc readers_cards_selector) js = Inr (js @ hs)"
proof -
  from readers_structured_items_first [OF mixed_extract]
  obtain js hs where
    js: "jsonld_scripts mixed_lib ''https://www.readers.jo/''
           (mixed_doc jsonld_selector) [] = Inr js"
    and items: "[\<lparr>title = PStr ''b1'', price = PStr [],
                   href = PStr ''https://www.readers.jo//b''\<rparr>,
                 \<lparr>title = PStr ''b2'', price = PStr [],
                   href = PStr ''https://www.readers.jo//b''\<rparr>,
                 \<lparr>title = PStr ''Laptop'', price = PStr [],
                   href = PStr ''https://www.readers.jo//p/1''\<rparr>] = js @ hs"
    and loop: "length js < 8 \<longrightarrow>
                 readers_html_loop mixed_lib ''https://www.readers.jo/''
                   (mixed_doc readers_cards_selector) js = Inr (js @ hs)"
    by blast
  from js have js2: "js = [\<lparr>title = PStr ''b1'', price = PStr [],
                href = PStr ''https://www.readers.jo//b''\<rparr>,
               \<lparr>title = PStr ''b2'', price = PStr [],
                href = PStr ''https://www.readers.jo//b''\<rparr>]"
    by (simp add: mixed_jsonld)
  with items have "hs = [\<lparr>title = PStr ''Laptop'', price = PStr [],
                href = PStr ''https://www.readers.jo//p/1''\<rparr>]"
    by simp
  with js items loop js2 show ?thesis by auto
qed


section \<open>The orchestrator: isolation of the sites\<close>































section \<open>The reports: the pool and the fallback\<close>






















end
